theory Spec2Isabelle
  imports Main "HOL-Library.Word"
begin

section \<open>JavaScript values\<close>

text \<open>
  \<^verbatim>\<open>server.js\<close> is glue around built-ins of the JavaScript runtime. The built-ins it calls
  are modelled here next to the functions of the file, each after its definition in
  ECMA-262. A string is a sequence of 16-bit code units, as \<^verbatim>\<open>slice\<close>, \<^verbatim>\<open>charAt\<close> and
  \<^verbatim>\<open>length\<close> see it.
\<close>

type_synonym code_unit = "16 word"
type_synonym jsstring = "code_unit list"

definition lit :: "string \<Rightarrow> jsstring" where
  \<comment> \<open>an ASCII literal of the source as code units\<close>
  "lit s = map (\<lambda>c. of_nat (of_char c)) s"

text \<open>
  A Number is NaN, an infinity, or finite. A finite number is written as the decimal
  \<open>(-1)\<^sup>s \<sqdot> m \<sqdot> 10\<^sup>e\<close>: every binary64 value is such a decimal, and
  Number::toString, \<^verbatim>\<open>parseFloat\<close> and \<^verbatim>\<open>parseInt\<close> are defined on decimal digits. The
  sign is kept apart so that \<open>-0\<close> exists. Rounding a decimal to the nearest binary64
  value is not modelled: a literal of more than 15 significant digits, or one beyond
  the binary64 range, keeps its decimal value here.
\<close>

datatype jsnum = NaN | PosInfinity | NegInfinity | Finite bool nat int

datatype jsval =
    Undefined
  | Null
  | Bool bool
  | Num jsnum
  | Str jsstring
  | Arr "jsval list"
  | Obj "(jsstring \<times> jsval) list"

definition num_of_int :: "int \<Rightarrow> jsnum" where
  "num_of_int k = Finite (k < 0) (nat \<bar>k\<bar>) 0"

subsection \<open>Decimal digits\<close>

fun dec_digits :: "nat \<Rightarrow> nat list" where
  "dec_digits n = (if n < 10 then [n] else dec_digits (n div 10) @ [n mod 10])"

declare dec_digits.simps [simp del]

definition digit_unit :: "nat \<Rightarrow> code_unit" where
  "digit_unit d = of_nat (48 + d)"

definition is_digit :: "code_unit \<Rightarrow> bool" where
  \<comment> \<open>\<^verbatim>\<open>\d\<close> without the unicode flag, and DecimalDigit: 0-9\<close>
  "is_digit c \<longleftrightarrow> 0x30 \<le> c \<and> c \<le> 0x39"

definition digits_val :: "jsstring \<Rightarrow> nat" where
  "digits_val ds = foldl (\<lambda>a c. 10 * a + (unat c - 48)) 0 ds"

definition strip_zeros :: "nat list \<Rightarrow> nat list" where
  \<comment> \<open>the digits without their trailing zeros\<close>
  "strip_zeros ds = rev (dropWhile (\<lambda>d. d = 0) (rev ds))"

subsection \<open>Number::toString and String(v)\<close>

definition exponent_text :: "int \<Rightarrow> jsstring" where
  "exponent_text ex =
     0x65 # (if ex < 0 then 0x2D else 0x2B) # map digit_unit (dec_digits (nat \<bar>ex\<bar>))"

definition Number_toString :: "jsnum \<Rightarrow> jsstring" where
  \<comment> \<open>ECMA-262 Number::toString, radix 10. \<open>ds\<close> are the digits of s, \<open>k\<close> their count and
      \<open>n\<close> the position of the decimal point.\<close>
  "Number_toString x =
     (case x of
        NaN \<Rightarrow> lit ''NaN''
      | PosInfinity \<Rightarrow> lit ''Infinity''
      | NegInfinity \<Rightarrow> lit ''-Infinity''
      | Finite neg m e \<Rightarrow>
          if m = 0 then lit ''0''
          else
            let ds = strip_zeros (dec_digits m);
                k = int (length ds);
                n = int (length (dec_digits m)) + e;
                body =
                  (if k \<le> n \<and> n \<le> 21 then
                     map digit_unit ds @ replicate (nat (n - k)) 0x30
                   else if 0 < n \<and> n \<le> 21 then
                     map digit_unit (take (nat n) ds) @ [0x2E] @ map digit_unit (drop (nat n) ds)
                   else if - 6 < n \<and> n \<le> 0 then
                     lit ''0.'' @ replicate (nat (- n)) 0x30 @ map digit_unit ds
                   else if k = 1 then
                     map digit_unit ds @ exponent_text (n - 1)
                   else
                     map digit_unit (take 1 ds) @ [0x2E] @ map digit_unit (drop 1 ds)
                       @ exponent_text (n - 1))
            in (if neg then [0x2D] else []) @ body)"

fun join_with :: "jsstring \<Rightarrow> jsstring list \<Rightarrow> jsstring" where
  "join_with sep [] = []"
| "join_with sep [x] = x"
| "join_with sep (x # y # ys) = x @ sep @ join_with sep (y # ys)"

fun ToString :: "jsval \<Rightarrow> jsstring" where
  \<comment> \<open>\<^verbatim>\<open>String(v)\<close>; an array joins its elements with commas, null and undefined
      elements as empty strings\<close>
  "ToString Undefined = lit ''undefined''"
| "ToString Null = lit ''null''"
| "ToString (Bool b) = (if b then lit ''true'' else lit ''false'')"
| "ToString (Num x) = Number_toString x"
| "ToString (Str s) = s"
| "ToString (Arr xs) =
     join_with [0x2C] (map (\<lambda>x. if x = Undefined \<or> x = Null then [] else ToString x) xs)"
| "ToString (Obj kvs) = lit ''[object Object]''"

fun ToBoolean :: "jsval \<Rightarrow> bool" where
  "ToBoolean Undefined = False"
| "ToBoolean Null = False"
| "ToBoolean (Bool b) = b"
| "ToBoolean (Num NaN) = False"
| "ToBoolean (Num (Finite neg m e)) = (m \<noteq> 0)"
| "ToBoolean (Num x) = True"
| "ToBoolean (Str s) = (s \<noteq> [])"
| "ToBoolean (Arr xs) = True"
| "ToBoolean (Obj kvs) = True"

fun typeof_object :: "jsval \<Rightarrow> bool" where
  \<comment> \<open>\<^verbatim>\<open>typeof v === 'object'\<close>\<close>
  "typeof_object Null = True"
| "typeof_object (Arr xs) = True"
| "typeof_object (Obj kvs) = True"
| "typeof_object v = False"

fun Object_keys :: "jsval \<Rightarrow> jsstring list" where
  \<comment> \<open>the own enumerable keys; of an array, its indices\<close>
  "Object_keys (Obj kvs) = map fst kvs"
| "Object_keys (Arr xs) = map (\<lambda>i. map digit_unit (dec_digits i)) [0 ..< length xs]"
| "Object_keys v = []"

subsection \<open>Case conversion\<close>

text \<open>
  \<^verbatim>\<open>toUpperCase\<close> and \<^verbatim>\<open>toLowerCase\<close> map each code point through the Unicode case
  tables. The rows transcribed here are those of Basic Latin and of U+212A KELVIN SIGN,
  whose lower case is the Latin letter k and which is its own upper case. Statements
  about all strings are made for code units below \<open>0x80\<close> only, where the tables are
  complete.
\<close>

definition toUpperCase_unit :: "code_unit \<Rightarrow> jsstring" where
  "toUpperCase_unit c = (if 0x61 \<le> c \<and> c \<le> 0x7A then [c - 0x20] else [c])"

definition toLowerCase_unit :: "code_unit \<Rightarrow> jsstring" where
  "toLowerCase_unit c =
     (if 0x41 \<le> c \<and> c \<le> 0x5A then [c + 0x20]
      else if c = 0x212A then [0x6B]
      else [c])"

definition toUpperCase :: "jsstring \<Rightarrow> jsstring" where
  "toUpperCase s = concat (map toUpperCase_unit s)"

definition toLowerCase :: "jsstring \<Rightarrow> jsstring" where
  "toLowerCase s = concat (map toLowerCase_unit s)"

section \<open>Helpers and filters of server.js\<close>

definition ensureString :: "jsval \<Rightarrow> jsstring" where
  "ensureString v =
     (if v = Null \<or> v = Undefined \<or> (typeof_object v \<and> length (Object_keys v) = 0)
      then [] else ToString v)"

definition upper :: "jsval \<Rightarrow> jsstring" where
  "upper s = toUpperCase (ensureString s)"

definition lower :: "jsval \<Rightarrow> jsstring" where
  "lower s = toLowerCase (ensureString s)"

definition capitalize :: "jsval \<Rightarrow> jsstring" where
  "capitalize s =
     (let t = ensureString s
      in if t \<noteq> [] then toUpperCase (take 1 t) @ toLowerCase (drop 1 t) else t)"

subsection \<open>parseFloat, parseInt, Math.max, slice\<close>

definition is_space :: "code_unit \<Rightarrow> bool" where
  \<comment> \<open>StrWhiteSpaceChar: WhiteSpace (TAB, VT, FF, ZWNBSP and the space separators) and
      LineTerminator (LF, CR, LS, PS)\<close>
  "is_space c \<longleftrightarrow>
     c \<in> {0x09, 0x0A, 0x0B, 0x0C, 0x0D, 0x20, 0xA0, 0x1680, 0x2028, 0x2029, 0x202F, 0x205F,
          0x3000, 0xFEFF}
     \<or> (0x2000 \<le> c \<and> c \<le> 0x200A)"

definition take_sign :: "jsstring \<Rightarrow> bool \<times> jsstring" where
  \<comment> \<open>an optional leading \<^verbatim>\<open>+\<close> or \<^verbatim>\<open>-\<close>: (is it negative, the rest)\<close>
  "take_sign s =
     (case s of
        [] \<Rightarrow> (False, [])
      | c # r \<Rightarrow> if c = 0x2D then (True, r) else if c = 0x2B then (False, r) else (False, s))"

definition starts_with :: "jsstring \<Rightarrow> jsstring \<Rightarrow> bool" where
  "starts_with p s \<longleftrightarrow> take (length p) s = p"

definition scan_exponent :: "jsstring \<Rightarrow> int \<times> jsstring" where
  \<comment> \<open>an ExponentPart at the head of the string: (its value, what follows it), and
      (0, the string) when there is none\<close>
  "scan_exponent r =
     (case r of
        [] \<Rightarrow> (0, r)
      | c # r' \<Rightarrow>
          if c = 0x65 \<or> c = 0x45 then
            (let (neg, d) = take_sign r'; ds = takeWhile is_digit d
             in if ds = [] then (0, r)
                else (if neg then - int (digits_val ds) else int (digits_val ds),
                      dropWhile is_digit d))
          else (0, r))"

definition scan_decimal :: "jsstring \<Rightarrow> jsnum \<times> jsstring" where
  \<comment> \<open>the longest prefix that is a StrDecimalLiteral: (its value, what follows it), NaN
      when no prefix is one\<close>
  "scan_decimal s =
     (let (neg, t) = take_sign s
      in if starts_with (lit ''Infinity'') t then
           (if neg then NegInfinity else PosInfinity, drop 8 t)
         else
           let ip = takeWhile is_digit t;
               r1 = dropWhile is_digit t;
               dot = (r1 \<noteq> [] \<and> hd r1 = 0x2E);
               fp = (if dot then takeWhile is_digit (tl r1) else []);
               r2 = (if dot then dropWhile is_digit (tl r1) else r1)
           in if ip = [] \<and> fp = [] then (NaN, s)
              else
                let (ex, r3) = scan_exponent r2
                in (Finite neg (digits_val (ip @ fp)) (ex - int (length fp)), r3))"

definition parseFloat_string :: "jsstring \<Rightarrow> jsnum" where
  "parseFloat_string input = fst (scan_decimal (dropWhile is_space input))"

definition parseFloat :: "jsval \<Rightarrow> jsnum" where
  "parseFloat v = parseFloat_string (ToString v)"

definition parseInt10 :: "jsval \<Rightarrow> jsnum" where
  \<comment> \<open>\<^verbatim>\<open>parseInt(v, 10)\<close>: the leading integer of the trimmed string form\<close>
  "parseInt10 v =
     (let (neg, t) = take_sign (dropWhile is_space (ToString v));
          ds = takeWhile is_digit t
      in if ds = [] then NaN else Finite neg (digits_val ds) 0)"

definition isNaN :: "jsnum \<Rightarrow> bool" where
  "isNaN x \<longleftrightarrow> x = NaN"

definition integer_part :: "nat \<Rightarrow> int \<Rightarrow> nat" where
  \<comment> \<open>the integer part of \<open>m \<sqdot> 10\<^sup>e\<close>\<close>
  "integer_part m e = (if 0 \<le> e then m * 10 ^ nat e else m div 10 ^ nat (- e))"

fun num_less :: "jsnum \<Rightarrow> jsnum \<Rightarrow> bool" where
  \<comment> \<open>\<open>x < y\<close> on numbers other than NaN, \<open>-0\<close> below \<open>+0\<close> as Math.max orders them\<close>
  "num_less NaN y = False"
| "num_less x NaN = False"
| "num_less PosInfinity y = False"
| "num_less x PosInfinity = True"
| "num_less x NegInfinity = False"
| "num_less NegInfinity y = True"
| "num_less (Finite n1 m1 e1) (Finite n2 m2 e2) =
     (let e = min e1 e2;
          a = (if n1 then - 1 else 1) * int m1 * 10 ^ nat (e1 - e);
          b = (if n2 then - 1 else 1) * int m2 * 10 ^ nat (e2 - e)
      in a < b \<or> (a = b \<and> n1 \<and> \<not> n2))"

definition Math_max :: "jsnum \<Rightarrow> jsnum \<Rightarrow> jsnum" where
  "Math_max x y = (if x = NaN \<or> y = NaN then NaN else if num_less x y then y else x)"

definition slice_to :: "jsstring \<Rightarrow> jsnum \<Rightarrow> jsstring" where
  \<comment> \<open>\<^verbatim>\<open>s.slice(0, end)\<close>: \<open>end\<close> goes through ToIntegerOrInfinity, a negative one counts
      from the end of the string\<close>
  "slice_to s end =
     (let len = length s;
          to = (case end of
                  NaN \<Rightarrow> 0
                | PosInfinity \<Rightarrow> len
                | NegInfinity \<Rightarrow> 0
                | Finite neg m e \<Rightarrow>
                    if neg then len - integer_part m e else min (integer_part m e) len)
      in take to s)"

definition limitTo :: "jsval \<Rightarrow> jsval \<Rightarrow> jsstring" where
  "limitTo v n =
     slice_to (ensureString v)
       (Math_max (num_of_int 0) (parseInt10 (if ToBoolean n then n else Num (num_of_int 0))))"

subsection \<open>ToNumber\<close>

definition trim :: "jsstring \<Rightarrow> jsstring" where
  "trim s = rev (dropWhile is_space (rev (dropWhile is_space s)))"

definition radix_digit :: "code_unit \<Rightarrow> nat" where
  \<comment> \<open>the value of a digit or letter; 36 for any other code unit\<close>
  "radix_digit c =
     (if 0x30 \<le> c \<and> c \<le> 0x39 then unat c - 48
      else if 0x61 \<le> c \<and> c \<le> 0x7A then unat c - 87
      else if 0x41 \<le> c \<and> c \<le> 0x5A then unat c - 55
      else 36)"

definition scan_radix :: "nat \<Rightarrow> jsstring \<Rightarrow> jsnum" where
  \<comment> \<open>the digits of a NonDecimalIntegerLiteral after its prefix\<close>
  "scan_radix b ds =
     (if ds \<noteq> [] \<and> list_all (\<lambda>c. radix_digit c < b) ds
      then Finite False (foldl (\<lambda>a c. b * a + radix_digit c) 0 ds) 0
      else NaN)"

definition StringToNumber :: "jsstring \<Rightarrow> jsnum" where
  "StringToNumber s =
     (let t = trim s
      in if t = [] then Finite False 0 0
         else if starts_with (lit ''0x'') t \<or> starts_with (lit ''0X'') t then scan_radix 16 (drop 2 t)
         else if starts_with (lit ''0o'') t \<or> starts_with (lit ''0O'') t then scan_radix 8 (drop 2 t)
         else if starts_with (lit ''0b'') t \<or> starts_with (lit ''0B'') t then scan_radix 2 (drop 2 t)
         else let (x, rest) = scan_decimal t in if rest = [] then x else NaN)"

fun ToNumber :: "jsval \<Rightarrow> jsnum" where
  \<comment> \<open>the unary \<^verbatim>\<open>+\<close>; an array or object goes through its string form\<close>
  "ToNumber Undefined = NaN"
| "ToNumber Null = Finite False 0 0"
| "ToNumber (Bool b) = Finite False (if b then 1 else 0) 0"
| "ToNumber (Num x) = x"
| "ToNumber (Str s) = StringToNumber s"
| "ToNumber (Arr xs) = StringToNumber (ToString (Arr xs))"
| "ToNumber (Obj kvs) = StringToNumber (ToString (Obj kvs))"

subsection \<open>Intl.NumberFormat('vi-VN')\<close>

text \<open>
  The formatter of ECMA-402 with the data of the locale \<^verbatim>\<open>vi-VN\<close>: the group separator
  is a full stop, the decimal separator a comma, groups have three digits and start at
  the fourth integer digit, the rounding mode is half-expand, and the sign of a negative
  number (negative zero among them) is a hyphen-minus. A fraction is first rounded to
  the maximum number of fraction digits and then loses its trailing zeros down to the
  minimum.
\<close>

datatype jserror = RangeError | TypeError | URIError | SyntaxError | Error

definition fraction_digits_option :: "jsnum \<Rightarrow> jserror + nat" where
  \<comment> \<open>DefaultNumberOption(value, 0, 100): NaN or a value outside the range is a
      RangeError, the result is the floor. The upper limit was 20 before ECMA-402 2023.\<close>
  "fraction_digits_option x =
     (case x of
        Finite neg m e \<Rightarrow>
          if (neg \<and> m \<noteq> 0) \<or> num_less (Finite False 100 0) x then Inl RangeError
          else Inr (integer_part m e)
      | _ \<Rightarrow> Inl RangeError)"

fun group_rev :: "jsstring \<Rightarrow> jsstring" where
  \<comment> \<open>on the digits in reverse: a separator after every third digit that has a successor\<close>
  "group_rev (a # b # c # d # r) = a # b # c # 0x2E # group_rev (d # r)"
| "group_rev ds = ds"

definition group_thousands :: "jsstring \<Rightarrow> jsstring" where
  "group_thousands ds = rev (group_rev (rev ds))"

definition round_scaled :: "nat \<Rightarrow> int \<Rightarrow> nat \<Rightarrow> nat" where
  \<comment> \<open>\<open>m \<sqdot> 10\<^sup>e \<sqdot> 10\<^sup>f\<close> rounded to the nearest integer, a tie away from zero\<close>
  "round_scaled m e f =
     (let s = e + int f
      in if 0 \<le> s then m * 10 ^ nat s
         else (2 * m + 10 ^ nat (- s)) div (2 * 10 ^ nat (- s)))"

definition pad_left :: "nat \<Rightarrow> 'a \<Rightarrow> 'a list \<Rightarrow> 'a list" where
  "pad_left n x xs = replicate (n - length xs) x @ xs"

fun fixed_digits :: "nat \<Rightarrow> nat \<Rightarrow> nat list" where
  \<comment> \<open>the last \<open>f\<close> decimal digits of a number, leading zeros kept\<close>
  "fixed_digits 0 r = []"
| "fixed_digits (Suc f) r = fixed_digits f (r div 10) @ [r mod 10]"

definition format_decimal :: "nat \<Rightarrow> nat \<Rightarrow> jsnum \<Rightarrow> jsstring" where
  \<comment> \<open>\<^verbatim>\<open>format(x)\<close> with \<open>mnfd\<close> minimum and \<open>mxfd\<close> maximum fraction digits; \<open>ip\<close> and
      \<open>fp\<close> are the integer and the fraction digits of the rounded number\<close>
  "format_decimal mnfd mxfd x =
     (case x of
        NaN \<Rightarrow> lit ''NaN''
      | PosInfinity \<Rightarrow> [0x221E]
      | NegInfinity \<Rightarrow> [0x2D, 0x221E]
      | Finite neg m e \<Rightarrow>
          let ds = pad_left (mxfd + 1) 0 (dec_digits (round_scaled m e mxfd));
              ip = take (length ds - mxfd) ds;
              fp = drop (length ds - mxfd) ds;
              fp' = take (max mnfd (length (strip_zeros fp))) fp
          in (if neg then [0x2D] else []) @ group_thousands (map digit_unit ip)
               @ (if fp' = [] then [] else 0x2C # map digit_unit fp'))"

definition number :: "jsval \<Rightarrow> jsval \<Rightarrow> jserror + jsstring" where
  \<comment> \<open>\<^verbatim>\<open>frac = 0\<close> is the default of an argument that is undefined\<close>
  "number val frac =
     (let n = parseFloat val
      in if isNaN n then Inr (ensureString val)
         else
           case fraction_digits_option (ToNumber (if frac = Undefined then Num (num_of_int 0) else frac)) of
             Inl err \<Rightarrow> Inl err
           | Inr fd \<Rightarrow> Inr (format_decimal fd fd n))"

definition numflex :: "jsval \<Rightarrow> jsstring" where
  "numflex val =
     (let n = parseFloat val
      in if isNaN n then ensureString val else format_decimal 0 20 n)"

definition currency :: "jsval \<Rightarrow> jsstring" where
  \<comment> \<open>the currency VND has no minor unit: no fraction digits; the pattern of the locale
      puts a no-break space and the dong sign after the number\<close>
  "currency v =
     (let n = parseFloat v
      in if isNaN n then ensureString v else format_decimal 0 0 n @ [0xA0, 0x20AB])"

subsection \<open>Date\<close>

text \<open>
  What the runtime decides and server.js cannot see is a parameter: the offset of the
  local time zone, the heuristics of \<^verbatim>\<open>Date.parse\<close> for a string that is not in the Date
  Time String Format, and \<^verbatim>\<open>JSON.parse\<close>.
  ECMA-262 fixes the rest: a date-only string \<^verbatim>\<open>YYYY-MM-DD\<close> is midnight UTC of that day,
  and \<^verbatim>\<open>getDate\<close>, \<^verbatim>\<open>getMonth\<close> and \<^verbatim>\<open>getFullYear\<close> read the date in local time.
\<close>

record platform =
  LocalTZA :: "int \<Rightarrow> int"
    \<comment> \<open>the offset of local time from UTC in milliseconds, at a UTC time value\<close>
  Date_parse_fallback :: "jsstring \<Rightarrow> int option"
    \<comment> \<open>the time value of a string outside the format; None is NaN\<close>
  JSON_parse :: "jsstring \<Rightarrow> jsval option"
    \<comment> \<open>None when \<^verbatim>\<open>JSON.parse\<close> throws a SyntaxError\<close>

definition days_from_civil :: "int \<Rightarrow> int \<Rightarrow> int \<Rightarrow> int" where
  \<comment> \<open>the day number of a date of the proleptic Gregorian calendar, day 0 being
      1970-01-01; the year is counted from March\<close>
  "days_from_civil y m d =
     (let y' = (if m \<le> 2 then y - 1 else y);
          era = y' div 400;
          yoe = y' mod 400;
          doy = (153 * (if m > 2 then m - 3 else m + 9) + 2) div 5 + d - 1;
          doe = yoe * 365 + yoe div 4 - yoe div 100 + doy
      in era * 146097 + doe - 719468)"

definition civil_from_days :: "int \<Rightarrow> int \<times> int \<times> int" where
  \<comment> \<open>(year, month from 1, day of the month) of a day number\<close>
  "civil_from_days z0 =
     (let z = z0 + 719468;
          era = z div 146097;
          doe = z mod 146097;
          yoe = (doe - doe div 1460 + doe div 36524 - doe div 146096) div 365;
          doy = doe - (365 * yoe + yoe div 4 - yoe div 100);
          mp = (5 * doy + 2) div 153;
          d = doy - (153 * mp + 2) div 5 + 1;
          m = (if mp < 10 then mp + 3 else mp - 9);
          y = yoe + era * 400
      in (if m \<le> 2 then y + 1 else y, m, d))"

definition days_in_month :: "int \<Rightarrow> int \<Rightarrow> int" where
  "days_in_month y m =
     (if m = 2 then (if y mod 4 = 0 \<and> (y mod 100 \<noteq> 0 \<or> y mod 400 = 0) then 29 else 28)
      else if m \<in> {4, 6, 9, 11} then 30 else 31)"

definition iso_date_only :: "jsstring \<Rightarrow> (int \<times> int \<times> int) option" where
  \<comment> \<open>\<^verbatim>\<open>YYYY-MM-DD\<close> naming a day that exists\<close>
  "iso_date_only s =
     (if length s = 10 \<and> list_all is_digit (take 4 s) \<and> take 1 (drop 4 s) = [0x2D]
         \<and> list_all is_digit (take 2 (drop 5 s)) \<and> take 1 (drop 7 s) = [0x2D]
         \<and> list_all is_digit (drop 8 s)
      then
        let y = int (digits_val (take 4 s));
            m = int (digits_val (take 2 (drop 5 s)));
            d = int (digits_val (drop 8 s))
        in if 1 \<le> m \<and> m \<le> 12 \<and> 1 \<le> d \<and> d \<le> days_in_month y m then Some (y, m, d)
           else None
      else None)"

definition Date_parse :: "platform \<Rightarrow> jsstring \<Rightarrow> int option" where
  \<comment> \<open>the time value of \<^verbatim>\<open>new Date(s)\<close>; the empty string is unrecognisable\<close>
  "Date_parse P s =
     (if s = [] then None
      else case iso_date_only s of
             Some (y, m, d) \<Rightarrow> Some (days_from_civil y m d * 86400000)
           | None \<Rightarrow> Date_parse_fallback P s)"

definition local_date :: "platform \<Rightarrow> int \<Rightarrow> int \<times> int \<times> int" where
  "local_date P t = civil_from_days ((t + LocalTZA P t) div 86400000)"

definition getFullYear :: "platform \<Rightarrow> int \<Rightarrow> int" where
  "getFullYear P t = fst (local_date P t)"

definition getMonth :: "platform \<Rightarrow> int \<Rightarrow> int" where
  "getMonth P t = fst (snd (local_date P t)) - 1"

definition getDate :: "platform \<Rightarrow> int \<Rightarrow> int" where
  "getDate P t = snd (snd (local_date P t))"

subsection \<open>The date filter\<close>

definition is_sep :: "code_unit \<Rightarrow> bool" where
  \<comment> \<open>the class \<^verbatim>\<open>[\/-]\<close>\<close>
  "is_sep c \<longleftrightarrow> c = 0x2F \<or> c = 0x2D"

definition date_pattern :: "jsstring \<Rightarrow> bool" where
  \<comment> \<open>\<^verbatim>\<open>/^\d{1,2}[\/-]\d{1,2}[\/-]\d{4}$/.test(s)\<close>: a separator is no digit, so each run of
      digits is matched whole\<close>
  "date_pattern s =
     (let d1 = takeWhile is_digit s; r1 = dropWhile is_digit s;
          d2 = takeWhile is_digit (drop 1 r1); r2 = dropWhile is_digit (drop 1 r1);
          d3 = drop 1 r2
      in (length d1 = 1 \<or> length d1 = 2) \<and> r1 \<noteq> [] \<and> is_sep (hd r1)
         \<and> (length d2 = 1 \<or> length d2 = 2) \<and> r2 \<noteq> [] \<and> is_sep (hd r2)
         \<and> length d3 = 4 \<and> list_all is_digit d3)"

fun split_on :: "(code_unit \<Rightarrow> bool) \<Rightarrow> jsstring \<Rightarrow> jsstring list" where
  \<comment> \<open>\<^verbatim>\<open>s.split(/[...]/)\<close> for a class of single code units\<close>
  "split_on sep [] = [[]]"
| "split_on sep (c # s) =
     (if sep c then [] # split_on sep s
      else case split_on sep s of
             [] \<Rightarrow> [[c]]
           | h # t \<Rightarrow> (c # h) # t)"

definition part :: "jsstring list \<Rightarrow> nat \<Rightarrow> jsstring" where
  \<comment> \<open>\<^verbatim>\<open>${p[i]}\<close> in a template literal\<close>
  "part p i = (if i < length p then p ! i else lit ''undefined'')"

fun replace_first :: "jsstring \<Rightarrow> jsstring \<Rightarrow> jsstring \<Rightarrow> jsstring" where
  \<comment> \<open>\<^verbatim>\<open>s.replace(pat, rep)\<close> for a string pattern and a replacement without \<^verbatim>\<open>$\<close>: the
      first occurrence only\<close>
  "replace_first pat rep [] = (if pat = [] then rep else [])"
| "replace_first pat rep (c # s) =
     (if starts_with pat (c # s) then rep @ drop (length pat) (c # s)
      else c # replace_first pat rep s)"

definition decimal :: "int \<Rightarrow> jsstring" where
  \<comment> \<open>\<^verbatim>\<open>String(k)\<close> of an integer\<close>
  "decimal k = Number_toString (num_of_int k)"

definition padStart2 :: "jsstring \<Rightarrow> jsstring" where
  \<comment> \<open>\<^verbatim>\<open>s.padStart(2, '0')\<close>\<close>
  "padStart2 s = pad_left 2 0x30 s"

definition swap_day_month :: "jsstring \<Rightarrow> jsstring" where
  \<comment> \<open>lines 57 to 59: what becomes of \<^verbatim>\<open>s\<close> before \<^verbatim>\<open>new Date(s)\<close>\<close>
  "swap_day_month s =
     (if date_pattern s
      then (let p = split_on is_sep s in part p 1 @ [0x2F] @ part p 0 @ [0x2F] @ part p 2)
      else s)"

definition date :: "platform \<Rightarrow> jsval \<Rightarrow> jsval \<Rightarrow> jserror + jsstring" where
  \<comment> \<open>\<^verbatim>\<open>fmt = 'dd/MM/yyyy'\<close> is the default of an argument that is undefined;
      \<^verbatim>\<open>fmt.replace\<close> is a TypeError when \<^verbatim>\<open>fmt\<close> is no string\<close>
  "date P input fmt0 =
     (let fmt = (if fmt0 = Undefined then Str (lit ''dd/MM/yyyy'') else fmt0);
          s = swap_day_month (ensureString input)
      in case Date_parse P s of
           None \<Rightarrow> Inr (ensureString input)
         | Some t \<Rightarrow>
             let dd = padStart2 (decimal (getDate P t));
                 mm = padStart2 (decimal (getMonth P t + 1));
                 yyyy = decimal (getFullYear P t)
             in case fmt of
                  Str f \<Rightarrow>
                    Inr (replace_first (lit ''yyyy'') yyyy
                          (replace_first (lit ''MM'') mm (replace_first (lit ''dd'') dd f)))
                | _ \<Rightarrow> Inl TypeError)"

subsection \<open>JSON.stringify and the json filter\<close>

definition hex_unit :: "nat \<Rightarrow> code_unit" where
  "hex_unit d = (if d < 10 then of_nat (48 + d) else of_nat (87 + d))"

definition unicode_escape :: "code_unit \<Rightarrow> jsstring" where
  \<comment> \<open>\<^verbatim>\<open>\uXXXX\<close> with lower-case hexadecimal digits\<close>
  "unicode_escape c =
     [0x5C, 0x75] @ map (\<lambda>i. hex_unit ((unat c div 16 ^ i) mod 16)) [3, 2, 1, 0]"

definition is_high_surrogate :: "code_unit \<Rightarrow> bool" where
  "is_high_surrogate c \<longleftrightarrow> 0xD800 \<le> c \<and> c \<le> 0xDBFF"

definition is_low_surrogate :: "code_unit \<Rightarrow> bool" where
  "is_low_surrogate c \<longleftrightarrow> 0xDC00 \<le> c \<and> c \<le> 0xDFFF"

fun quote_units :: "jsstring \<Rightarrow> jsstring" where
  \<comment> \<open>QuoteJSONString between the quotes: the short escapes, \<^verbatim>\<open>\u\<close> escapes for the other
      control characters and for a surrogate without its partner\<close>
  "quote_units [] = []"
| "quote_units (c # s) =
     (if c = 0x08 then [0x5C, 0x62] @ quote_units s
      else if c = 0x09 then [0x5C, 0x74] @ quote_units s
      else if c = 0x0A then [0x5C, 0x6E] @ quote_units s
      else if c = 0x0C then [0x5C, 0x66] @ quote_units s
      else if c = 0x0D then [0x5C, 0x72] @ quote_units s
      else if c = 0x22 then [0x5C, 0x22] @ quote_units s
      else if c = 0x5C then [0x5C, 0x5C] @ quote_units s
      else if c < 0x20 then unicode_escape c @ quote_units s
      else if is_high_surrogate c then
        (case s of
           [] \<Rightarrow> unicode_escape c
         | d # s' \<Rightarrow>
             if is_low_surrogate d then c # d # quote_units s'
             else unicode_escape c @ quote_units s)
      else if is_low_surrogate c then unicode_escape c @ quote_units s
      else c # quote_units s)"

definition JSON_quote :: "jsstring \<Rightarrow> jsstring" where
  "JSON_quote s = [0x22] @ quote_units s @ [0x22]"

fun SerializeJSONProperty :: "jsstring \<Rightarrow> jsval \<Rightarrow> jsstring option" where
  \<comment> \<open>with the gap of two spaces; \<open>ind\<close> is the current indentation. None is undefined:
      such a property is left out of an object and is \<^verbatim>\<open>null\<close> in an array. An object is
      the list of its own properties in the order of enumeration.\<close>
  "SerializeJSONProperty ind Undefined = None"
| "SerializeJSONProperty ind Null = Some (lit ''null'')"
| "SerializeJSONProperty ind (Bool b) = Some (if b then lit ''true'' else lit ''false'')"
| "SerializeJSONProperty ind (Num x) =
     Some (case x of Finite neg m e \<Rightarrow> Number_toString x | _ \<Rightarrow> lit ''null'')"
| "SerializeJSONProperty ind (Str s) = Some (JSON_quote s)"
| "SerializeJSONProperty ind (Arr xs) =
     Some (if xs = [] then lit ''[]''
           else [0x5B, 0x0A] @ ind @ lit ''  ''
                @ join_with ([0x2C, 0x0A] @ ind @ lit ''  '')
                    (map (\<lambda>x. case SerializeJSONProperty (ind @ lit ''  '') x of
                                None \<Rightarrow> lit ''null''
                              | Some t \<Rightarrow> t) xs)
                @ [0x0A] @ ind @ [0x5D])"
| "SerializeJSONProperty ind (Obj kvs) =
     Some (let parts =
                 concat (map (\<lambda>kv. case SerializeJSONProperty (ind @ lit ''  '') (snd kv) of
                                      None \<Rightarrow> []
                                    | Some t \<Rightarrow> [JSON_quote (fst kv) @ [0x3A, 0x20] @ t]) kvs)
           in if parts = [] then lit ''{}''
              else [0x7B, 0x0A] @ ind @ lit ''  ''
                   @ join_with ([0x2C, 0x0A] @ ind @ lit ''  '') parts
                   @ [0x0A] @ ind @ [0x7D])"

definition JSON_stringify :: "jsval \<Rightarrow> jserror + jsval" where
  \<comment> \<open>\<^verbatim>\<open>JSON.stringify(v, null, 2)\<close>. It throws for a cyclic structure and for a BigInt;
      a \<open>jsval\<close> is a finite tree without BigInt, so the result is never an error here.\<close>
  "JSON_stringify v =
     (case SerializeJSONProperty [] v of None \<Rightarrow> Inr Undefined | Some t \<Rightarrow> Inr (Str t))"

definition json :: "jsval \<Rightarrow> jsval" where
  "json v = (case JSON_stringify v of Inr r \<Rightarrow> r | Inl err \<Rightarrow> Str (ensureString v))"

subsection \<open>The filter registry\<close>

definition arg :: "jsval list \<Rightarrow> nat \<Rightarrow> jsval" where
  \<comment> \<open>the i-th argument of a call; a missing argument is undefined\<close>
  "arg as i = (if i < length as then as ! i else Undefined)"

definition filters :: "platform \<Rightarrow> jsstring \<Rightarrow> (jsval \<Rightarrow> jsval list \<Rightarrow> jserror + jsval) option" where
  \<comment> \<open>\<^verbatim>\<open>expressions.filters\<close> after server.js has filled it: the function registered
      under a name, applied to the piped value and the arguments after the colons\<close>
  "filters P name =
     (if name = lit ''upper'' then Some (\<lambda>s as. Inr (Str (upper s)))
      else if name = lit ''lower'' then Some (\<lambda>s as. Inr (Str (lower s)))
      else if name = lit ''capitalize'' then Some (\<lambda>s as. Inr (Str (capitalize s)))
      else if name = lit ''number'' then Some (\<lambda>val as. map_sum id Str (number val (arg as 0)))
      else if name = lit ''numflex'' then Some (\<lambda>val as. Inr (Str (numflex val)))
      else if name = lit ''currency'' then Some (\<lambda>v as. Inr (Str (currency v)))
      else if name = lit ''date'' then Some (\<lambda>input as. map_sum id Str (date P input (arg as 0)))
      else if name = lit ''limitTo'' then Some (\<lambda>v as. Inr (Str (limitTo v (arg as 0))))
      else if name = lit ''json'' then Some (\<lambda>v as. Inr (json v))
      else None)"

section \<open>Expressions and scopes\<close>

text \<open>
  Modelled from the spec: the expression compiler and the scope resolver
  (angular-expressions and the scope manager of docxtemplater) are not among the sources.
  Sections 3, 4.1 and 4.3 of the specification give the part used here: a tag is a
  property path, piped through filters with literal arguments or combined with
  operators; a scope maps identifiers to values and has an optional parent, and a
  lookup that misses in a scope falls back to its parent; a path that is not found is
  the empty value undefined. Of the operators, negation, the conditional and the two
  logical connectives are modelled, with the truthiness of JavaScript. A tag is given
  by its syntax tree.
\<close>

datatype expr =
    Path jsstring "jsstring list"
  | Lit jsval
  | Pipe expr jsstring "jsval list"
  | Not expr
  | Cond expr expr expr
  | And expr expr
  | Or expr expr

datatype scope = Scope "(jsstring \<times> jsval) list" "scope option"

fun lookup_scope :: "scope \<Rightarrow> jsstring \<Rightarrow> jsval option" where
  \<comment> \<open>Modelled from the spec: own keys first, then the parent, recursively; None is
      NotFound\<close>
  "lookup_scope (Scope kvs parent) x =
     (case map_of kvs x of
        Some v \<Rightarrow> Some v
      | None \<Rightarrow> (case parent of None \<Rightarrow> None | Some p \<Rightarrow> lookup_scope p x))"

definition array_index :: "jsstring \<Rightarrow> nat option" where
  \<comment> \<open>the index a property name denotes, when it is a canonical numeric string\<close>
  "array_index p =
     (if p \<noteq> [] \<and> list_all is_digit p \<and> map digit_unit (dec_digits (digits_val p)) = p
      then Some (digits_val p) else None)"

fun property :: "jsval \<Rightarrow> jsstring \<Rightarrow> jsval" where
  \<comment> \<open>Modelled from the spec: dotted or bracket access to an own property of an object
      and to an element or the length of an array; undefined on any other value\<close>
  "property (Obj kvs) p = (case map_of kvs p of Some v \<Rightarrow> v | None \<Rightarrow> Undefined)"
| "property (Arr xs) p =
     (if p = lit ''length'' then Num (num_of_int (int (length xs)))
      else case array_index p of
             Some i \<Rightarrow> if i < length xs then xs ! i else Undefined
           | None \<Rightarrow> Undefined)"
| "property v p = Undefined"

definition resolve :: "scope \<Rightarrow> jsstring \<Rightarrow> jsstring list \<Rightarrow> jsval" where
  \<comment> \<open>Modelled from the spec: \<open>resolve(scope, path)\<close>, NotFound being the empty value\<close>
  "resolve sc root props =
     (case lookup_scope sc root of None \<Rightarrow> Undefined | Some v \<Rightarrow> foldl property v props)"

fun compile :: "platform \<Rightarrow> expr \<Rightarrow> scope \<Rightarrow> jserror + jsval" where
  \<comment> \<open>Modelled from the spec: the evaluator of an expression. A filter that is not
      registered is an error; the filters themselves are those of server.js.\<close>
  "compile P (Path root props) sc = Inr (resolve sc root props)"
| "compile P (Lit v) sc = Inr v"
| "compile P (Pipe e name as) sc =
     (case filters P name of
        None \<Rightarrow> Inl Error
      | Some f \<Rightarrow> (case compile P e sc of Inl err \<Rightarrow> Inl err | Inr v \<Rightarrow> f v as))"
| "compile P (Not e) sc =
     (case compile P e sc of Inl err \<Rightarrow> Inl err | Inr v \<Rightarrow> Inr (Bool (\<not> ToBoolean v)))"
| "compile P (Cond c a b) sc =
     (case compile P c sc of
        Inl err \<Rightarrow> Inl err
      | Inr v \<Rightarrow> if ToBoolean v then compile P a sc else compile P b sc)"
| "compile P (And a b) sc =
     (case compile P a sc of
        Inl err \<Rightarrow> Inl err
      | Inr v \<Rightarrow> if ToBoolean v then compile P b sc else Inr v)"
| "compile P (Or a b) sc =
     (case compile P a sc of
        Inl err \<Rightarrow> Inl err
      | Inr v \<Rightarrow> if ToBoolean v then Inr v else compile P b sc)"

definition parser :: "platform \<Rightarrow> expr \<Rightarrow> scope \<Rightarrow> jserror + jsval" where
  \<comment> \<open>\<^verbatim>\<open>parser: tag => ({ get: scope => expressions.compile(tag)(scope) })\<close>\<close>
  "parser P tag = (\<lambda>scope. compile P tag scope)"


section \<open>The route POST /generate\<close>

text \<open>
  multer, PizZip and Docxtemplater are not among the sources: what the route gets from
  them is a parameter. multer either fails or hands over the request with its file and
  its text fields. A thrown value is kept by what the handlers read from it. The clock
  is the argument \<open>now\<close>, a time value in milliseconds.
\<close>

type_synonym bytes = "8 word list"

record thrown =
  err_code :: jsval
    \<comment> \<open>\<^verbatim>\<open>err.code\<close>\<close>
  err_message :: jsval
    \<comment> \<open>\<^verbatim>\<open>err.message\<close>\<close>
  err_errors :: jsval
    \<comment> \<open>\<^verbatim>\<open>err.properties && err.properties.errors\<close>\<close>
  err_string :: jsstring
    \<comment> \<open>\<^verbatim>\<open>String(err)\<close>\<close>
  err_is_multer :: bool
    \<comment> \<open>\<^verbatim>\<open>err instanceof multer.MulterError\<close>\<close>

record upload =
  buffer :: bytes
  originalname :: jsstring

record request =
  req_file :: "upload option"
    \<comment> \<open>\<^verbatim>\<open>req.file\<close>, None when the form has no file named template\<close>
  body_data :: jsval
    \<comment> \<open>\<^verbatim>\<open>req.body.data\<close>, undefined when the form has no such field\<close>
  body_fileName :: jsval

record options =
  paragraphLoop :: bool
  linebreaks :: bool
  parser_option :: "expr \<Rightarrow> scope \<Rightarrow> jserror + jsval"

text \<open>
  Modelled from the spec: the document merge engine, which is PizZip and Docxtemplater,
  is missing. Sections 4.4, 5 and 6 of the specification give it as a synchronous
  function of the template container and the data object that raises a fault, reports
  the placeholders that failed, or returns the rebuilt container. Each call of server.js
  into it is therefore a function of its arguments that throws or returns.
\<close>

record ('z, 'd) engine =
  PizZip :: "bytes \<Rightarrow> thrown + 'z"
    \<comment> \<open>\<^verbatim>\<open>new PizZip(buffer)\<close>\<close>
  Docxtemplater :: "'z \<Rightarrow> options \<Rightarrow> thrown + 'd"
    \<comment> \<open>\<^verbatim>\<open>new Docxtemplater(zip, options)\<close>\<close>
  render :: "'d \<Rightarrow> jsval \<Rightarrow> thrown + 'd"
    \<comment> \<open>\<^verbatim>\<open>doc.setData(formData)\<close>, then \<^verbatim>\<open>doc.render()\<close>\<close>
  zip_generate :: "'d \<Rightarrow> thrown + bytes"
    \<comment> \<open>\<^verbatim>\<open>doc.getZip().generate({ type: 'nodebuffer' })\<close>\<close>

datatype response =
    Json nat jsval
    \<comment> \<open>\<^verbatim>\<open>res.status(n).json(body)\<close>\<close>
  | Download "(jsstring \<times> jsstring) list" bytes
    \<comment> \<open>the headers set, and \<^verbatim>\<open>res.send(outputBuffer)\<close>\<close>

subsection \<open>File names\<close>

definition hex_upper :: "nat \<Rightarrow> code_unit" where
  "hex_upper d = (if d < 10 then of_nat (48 + d) else of_nat (55 + d))"

definition percent :: "nat \<Rightarrow> jsstring" where
  \<comment> \<open>an octet as \<^verbatim>\<open>%XX\<close>\<close>
  "percent b = [0x25, hex_upper (b div 16), hex_upper (b mod 16)]"

definition utf8 :: "nat \<Rightarrow> nat list" where
  \<comment> \<open>the octets of a code point in UTF-8\<close>
  "utf8 cp =
     (if cp < 0x80 then [cp]
      else if cp < 0x800 then [0xC0 + cp div 64, 0x80 + cp mod 64]
      else if cp < 0x10000 then
        [0xE0 + cp div 4096, 0x80 + (cp div 64) mod 64, 0x80 + cp mod 64]
      else
        [0xF0 + cp div 262144, 0x80 + (cp div 4096) mod 64, 0x80 + (cp div 64) mod 64,
         0x80 + cp mod 64])"

definition uri_unescaped :: "code_unit \<Rightarrow> bool" where
  \<comment> \<open>letters, digits and \<^verbatim>\<open>- _ . ! ~ * ' ( )\<close>\<close>
  "uri_unescaped c \<longleftrightarrow>
     (0x41 \<le> c \<and> c \<le> 0x5A) \<or> (0x61 \<le> c \<and> c \<le> 0x7A) \<or> (0x30 \<le> c \<and> c \<le> 0x39)
     \<or> c \<in> {0x2D, 0x5F, 0x2E, 0x21, 0x7E, 0x2A, 0x27, 0x28, 0x29}"

fun encodeURIComponent :: "jsstring \<Rightarrow> jserror + jsstring" where
  \<comment> \<open>a surrogate without its partner is a URIError\<close>
  "encodeURIComponent [] = Inr []"
| "encodeURIComponent (c # s) =
     (if uri_unescaped c then map_sum id (\<lambda>r. c # r) (encodeURIComponent s)
      else if is_low_surrogate c then Inl URIError
      else if is_high_surrogate c then
        (case s of
           [] \<Rightarrow> Inl URIError
         | d # s' \<Rightarrow>
             if is_low_surrogate d then
               map_sum id
                 (\<lambda>r. concat (map percent
                          (utf8 (0x10000 + (unat c - 0xD800) * 0x400 + (unat d - 0xDC00)))) @ r)
                 (encodeURIComponent s')
             else Inl URIError)
      else map_sum id (\<lambda>r. concat (map percent (utf8 (unat c))) @ r) (encodeURIComponent s))"

definition encodeFilename :: "jsstring \<Rightarrow> jserror + jsstring" where
  "encodeFilename n = encodeURIComponent (if n \<noteq> [] then n else lit ''document.docx'')"

definition ends_with :: "jsstring \<Rightarrow> jsstring \<Rightarrow> bool" where
  "ends_with suffix s \<longleftrightarrow> length suffix \<le> length s \<and> drop (length s - length suffix) s = suffix"

definition strip_docx :: "jsstring \<Rightarrow> jsstring" where
  \<comment> \<open>\<^verbatim>\<open>s.replace(/\.docx$/i, '')\<close>: the letters match in either case\<close>
  "strip_docx s =
     (if 5 \<le> length s \<and> toUpperCase (drop (length s - 5) s) = lit ''.DOCX''
         \<and> list_all (\<lambda>c. c < 0x80) (drop (length s - 5) s)
      then take (length s - 5) s else s)"

definition toISOString_date :: "int \<Rightarrow> jsstring" where
  \<comment> \<open>\<^verbatim>\<open>new Date(now).toISOString().slice(0, 10)\<close>; a year outside 0 to 9999 is written
      with a sign and six digits\<close>
  "toISOString_date now =
     (let (y, m, d) = civil_from_days (now div 86400000);
          year = (if 0 \<le> y \<and> y \<le> 9999 then pad_left 4 0x30 (decimal y)
                  else (if y < 0 then 0x2D else 0x2B) # pad_left 6 0x30 (decimal \<bar>y\<bar>))
      in take 10 (year @ [0x2D] @ padStart2 (decimal m) @ [0x2D] @ padStart2 (decimal d) @ [0x54]))"

subsection \<open>The handler\<close>

definition msg_no_template :: jsstring where
  \<comment> \<open>the message of line 96\<close>
  "msg_no_template =
     [0x4B, 0x68, 0xF4, 0x6E, 0x67, 0x20, 0x74, 0xEC, 0x6D, 0x20, 0x74, 0x68, 0x1EA5, 0x79, 0x20,
      0x66, 0x69, 0x6C, 0x65, 0x20, 0x74, 0x65, 0x6D, 0x70, 0x6C, 0x61, 0x74, 0x65, 0x2E]"

definition msg_render :: jsstring where
  \<comment> \<open>the message of line 129\<close>
  "msg_render =
     [0x4C, 0x1ED7, 0x69, 0x20, 0x6B, 0x68, 0x69, 0x20, 0x72, 0x65, 0x6E, 0x64, 0x65, 0x72, 0x20,
      0x74, 0x65, 0x6D, 0x70, 0x6C, 0x61, 0x74, 0x65, 0x20, 0x44, 0x4F, 0x43, 0x58, 0x20, 0x28,
      0x6B, 0x69, 0x1EC3, 0x6D, 0x20, 0x74, 0x72, 0x61, 0x20, 0x70, 0x6C, 0x61, 0x63, 0x65, 0x68,
      0x6F, 0x6C, 0x64, 0x65, 0x72, 0x73, 0x29, 0x2E]"

definition msg_server :: jsstring where
  \<comment> \<open>the message of line 148\<close>
  "msg_server =
     [0x4C, 0x1ED7, 0x69, 0x20, 0x73, 0x65, 0x72, 0x76, 0x65, 0x72, 0x20, 0x6B, 0x68, 0x69, 0x20,
      0x74, 0x1EA1, 0x6F, 0x20, 0x44, 0x4F, 0x43, 0x58]"

definition msg_too_large :: jsstring where
  \<comment> \<open>the message of line 158\<close>
  "msg_too_large =
     [0x46, 0x69, 0x6C, 0x65, 0x20, 0x71, 0x75, 0xE1, 0x20, 0x6C, 0x1EDB, 0x6E, 0x2E, 0x20, 0x47,
      0x69, 0x1EDB, 0x69, 0x20, 0x68, 0x1EA1, 0x6E, 0x20, 0x33, 0x30, 0x4D, 0x42, 0x2E]"

definition msg_upload :: jsstring where
  \<comment> \<open>the message of line 162\<close>
  "msg_upload =
     [0x4C, 0x1ED7, 0x69, 0x20, 0x75, 0x70, 0x6C, 0x6F, 0x61, 0x64, 0x20, 0x66, 0x69, 0x6C, 0x65]"

definition msg_unknown :: jsstring where
  \<comment> \<open>the message of line 164\<close>
  "msg_unknown =
     [0x4C, 0x1ED7, 0x69, 0x20, 0x73, 0x65, 0x72, 0x76, 0x65, 0x72, 0x20, 0x6B, 0x68, 0xF4, 0x6E,
      0x67, 0x20, 0x78, 0xE1, 0x63, 0x20, 0x111, 0x1ECB, 0x6E, 0x68]"

definition report :: "jsstring \<Rightarrow> jsval \<Rightarrow> jsval" where
  \<comment> \<open>\<^verbatim>\<open>{ message, details }\<close>\<close>
  "report message details = Obj [(lit ''message'', Str message), (lit ''details'', details)]"

definition formData :: "platform \<Rightarrow> request \<Rightarrow> jsval" where
  \<comment> \<open>lines 105 to 111: the parsed field, or the empty object when the field is missing,
      empty or not JSON\<close>
  "formData P req =
     (if ToBoolean (body_data req) then
        (case JSON_parse P (ToString (body_data req)) of Some v \<Rightarrow> v | None \<Rightarrow> Obj [])
      else Obj [])"

definition outName :: "int \<Rightarrow> upload \<Rightarrow> jsval \<Rightarrow> jsstring" where
  \<comment> \<open>lines 135 to 138\<close>
  "outName now f fileName =
     (let templateBase =
            strip_docx (if originalname f \<noteq> [] then originalname f else lit ''template'')
      in if ToBoolean fileName \<and> trim (ToString fileName) \<noteq> [] then
           (if ends_with (lit ''.docx'') (ToString fileName) then ToString fileName
            else ToString fileName @ lit ''.docx'')
         else lit ''HoSoTSBD_'' @ templateBase @ lit ''_'' @ toISOString_date now @ lit ''.docx'')"

definition uri_error :: thrown where
  "uri_error =
     \<lparr>err_code = Undefined, err_message = Str (lit ''URI malformed''), err_errors = Undefined,
      err_string = lit ''URIError: URI malformed'', err_is_multer = False\<rparr>"

definition render_details :: "thrown \<Rightarrow> jsval" where
  \<comment> \<open>line 128\<close>
  "render_details renderErr =
     (if ToBoolean (err_errors renderErr) then err_errors renderErr
      else if ToBoolean (err_message renderErr) then err_message renderErr
      else Str (err_string renderErr))"

definition merge :: "('z, 'd) engine \<Rightarrow> platform \<Rightarrow> int \<Rightarrow> upload \<Rightarrow> jsval \<Rightarrow> jsval \<Rightarrow> thrown + response" where
  \<comment> \<open>the body of the outer \<^verbatim>\<open>try\<close>, lines 114 to 145; Inl is what the outer \<^verbatim>\<open>catch\<close>
      receives\<close>
  "merge E P now f data fileName =
     (case PizZip E (buffer f) of
        Inl err \<Rightarrow> Inl err
      | Inr z \<Rightarrow>
          (case Docxtemplater E z
                  \<lparr>paragraphLoop = True, linebreaks = True, parser_option = parser P\<rparr> of
             Inl err \<Rightarrow> Inl err
           | Inr doc \<Rightarrow>
               (case render E doc data of
                  Inl renderErr \<Rightarrow> Inr (Json 500 (report msg_render (render_details renderErr)))
                | Inr doc' \<Rightarrow>
                    (case zip_generate E doc' of
                       Inl err \<Rightarrow> Inl err
                     | Inr outputBuffer \<Rightarrow>
                         (case encodeFilename (outName now f fileName) of
                            Inl err \<Rightarrow> Inl uri_error
                          | Inr enc \<Rightarrow>
                              Inr (Download
                                    [(lit ''Content-Type'',
                                      lit ''application/vnd.openxmlformats-officedocument.wordprocessingml.document''),
                                     (lit ''Content-Disposition'',
                                      lit ''attachment; filename='' @ [0x22] @ enc @ [0x22]
                                        @ lit ''; filename*=UTF-8'' @ [0x27, 0x27] @ enc)]
                                    outputBuffer))))))"

definition generate :: "('z, 'd) engine \<Rightarrow> platform \<Rightarrow> int \<Rightarrow> request \<Rightarrow> response" where
  \<comment> \<open>the handler of line 92\<close>
  "generate E P now req =
     (case req_file req of
        None \<Rightarrow> Json 400 (Obj [(lit ''message'', Str msg_no_template)])
      | Some f \<Rightarrow>
          (case merge E P now f (formData P req) (body_fileName req) of
             Inl err \<Rightarrow> Json 500 (report msg_server (Str (err_string err)))
           | Inr res \<Rightarrow> res))"

definition error_middleware :: "thrown \<Rightarrow> response" where
  \<comment> \<open>lines 153 to 167, for an error that is truthy\<close>
  "error_middleware err =
     (if err_code err = Str (lit ''LIMIT_FILE_SIZE'') then
        Json 413 (report msg_too_large (err_message err))
      else if err_is_multer err then Json 400 (report msg_upload (err_message err))
      else Json 500 (report msg_unknown (Str (err_string err))))"

definition post_generate :: "('z, 'd) engine \<Rightarrow> platform \<Rightarrow> int \<Rightarrow> thrown + request \<Rightarrow> response" where
  \<comment> \<open>\<^verbatim>\<open>app.post('/generate', upload.single('template'), handler)\<close>: the argument is what
      multer made of the form, its error or the request\<close>
  "post_generate E P now uploaded =
     (case uploaded of Inl err \<Rightarrow> error_middleware err | Inr req \<Rightarrow> generate E P now req)"

definition has_details :: "jsval \<Rightarrow> bool" where
  \<comment> \<open>the body has a property \<^verbatim>\<open>details\<close>\<close>
  "has_details body \<longleftrightarrow> (case body of Obj kvs \<Rightarrow> lit ''details'' \<in> fst ` set kvs | _ \<Rightarrow> False)"


definition example_platform :: "int \<Rightarrow> platform" where
  \<comment> \<open>a runtime for the examples: a fixed offset of local time, no heuristics in
      \<^verbatim>\<open>Date.parse\<close>, and a \<^verbatim>\<open>JSON.parse\<close> that reads two texts only\<close>
  "example_platform offset =
     \<lparr>LocalTZA = (\<lambda>t. offset), Date_parse_fallback = (\<lambda>s. None),
      JSON_parse = (\<lambda>s. if s = lit ''{}'' then Some (Obj [])
                         else if s = lit ''null'' then Some Null else None)\<rparr>"

definition example_render_error :: thrown where
  \<comment> \<open>a render error that carries a list of errors\<close>
  "example_render_error =
     \<lparr>err_code = Undefined, err_message = Str (lit ''Multi error''),
      err_errors = Arr [Obj [(lit ''name'', Str (lit ''ScopeParserError''))]],
      err_string = lit ''Error: Multi error'', err_is_multer = False\<rparr>"

definition example_engine :: "(bytes, bytes \<times> jsval) engine" where
  \<comment> \<open>an engine for the examples: an archive is its bytes, and must not be empty;
      rendering fails on the data null and otherwise keeps the data; the output is the
      bytes of the template\<close>
  "example_engine =
     \<lparr>PizZip = (\<lambda>b. if b = [] then
                      Inl \<lparr>err_code = Undefined, err_message = Str (lit ''bad zip''),
                           err_errors = Undefined, err_string = lit ''Error: bad zip'',
                           err_is_multer = False\<rparr>
                    else Inr b),
      Docxtemplater = (\<lambda>z opts. Inr (z, Undefined)),
      render = (\<lambda>d data. if data = Null then Inl example_render_error else Inr (fst d, data)),
      zip_generate = (\<lambda>d. Inr (fst d))\<rparr>"

definition example_upload :: upload where
  "example_upload = \<lparr>buffer = [0x50, 0x4B], originalname = lit ''Mau.docx''\<rparr>"

definition example_request :: "jsstring \<Rightarrow> request" where
  \<comment> \<open>the example template with a text in the field data\<close>
  "example_request d =
     \<lparr>req_file = Some example_upload, body_data = Str d, body_fileName = Undefined\<rparr>"


section \<open>Properties\<close>

subsection \<open>Evaluation on literals\<close>

lemma dec_digits_numeral:
  "dec_digits (numeral k) =
     (if numeral k < (10::nat) then [numeral k]
      else dec_digits (numeral k div 10) @ [numeral k mod 10])"
  by (rule dec_digits.simps)

lemma dec_digits_0: "dec_digits 0 = [0]"
  by (simp add: dec_digits.simps)

lemma dec_digits_1: "dec_digits 1 = [1]" "dec_digits (Suc 0) = [Suc 0]"
  by (simp_all add: dec_digits.simps)

lemmas number_defs =
  Number_toString_def strip_zeros_def Let_def exponent_text_def digit_unit_def is_digit_def
  lit_def digits_val_def num_of_int_def dec_digits_numeral dec_digits_0 dec_digits_1

lemmas parse_defs =
  parseFloat_def parseFloat_string_def scan_decimal_def scan_exponent_def take_sign_def
  is_space_def starts_with_def parseInt10_def isNaN_def

lemmas limitTo_defs =
  limitTo_def ensureString_def Math_max_def slice_to_def integer_part_def

subsection \<open>Decimal digits\<close>

lemma unat_digit_unit: "d < 10 \<Longrightarrow> unat (digit_unit d) = 48 + d"
  unfolding digit_unit_def unat_of_nat by simp

lemma is_digit_digit_unit: "d < 10 \<Longrightarrow> is_digit (digit_unit d)"
  by (simp add: is_digit_def word_le_nat_alt unat_digit_unit)

lemma dec_digits_lt_10: "d \<in> set (dec_digits n) \<Longrightarrow> d < 10"
proof (induction n rule: dec_digits.induct)
  case (1 n)
  from "1.prems" have "d \<in> set (if n < 10 then [n] else dec_digits (n div 10) @ [n mod 10])"
    by (subst (asm) dec_digits.simps)
  then show ?case using "1.IH" by (auto split: if_splits)
qed

lemma dec_digits_nonempty: "dec_digits n \<noteq> []"
  by (subst dec_digits.simps) simp

lemma digits_val_append:
  "digits_val (xs @ [c]) = 10 * digits_val xs + (unat c - 48)"
  by (simp add: digits_val_def)

lemma digits_val_dec_digits: "digits_val (map digit_unit (dec_digits n)) = n"
proof (induction n rule: dec_digits.induct)
  case (1 n)
  show ?case
  proof (cases "n < 10")
    case True
    then show ?thesis
      by (subst dec_digits.simps) (simp add: digits_val_def unat_digit_unit)
  next
    case False
    then have "digits_val (map digit_unit (dec_digits (n div 10))) = n div 10"
      using 1 by simp
    moreover have "unat (digit_unit (n mod 10)) = 48 + n mod 10"
      by (simp add: unat_digit_unit)
    ultimately show ?thesis using False
      by (subst dec_digits.simps) (simp add: digits_val_append)
  qed
qed

lemma length_dec_digits_le: "n < 10 ^ k \<Longrightarrow> 0 < k \<Longrightarrow> length (dec_digits n) \<le> k"
proof (induction n arbitrary: k rule: dec_digits.induct)
  case (1 n)
  show ?case
  proof (cases "n < 10")
    case True
    then show ?thesis using 1(3) by (subst dec_digits.simps) simp
  next
    case False
    obtain j where k: "k = Suc j" using 1(3) by (cases k) auto
    have j: "0 < j"
    proof (rule ccontr)
      assume "\<not> 0 < j"
      then have "k = 1" using k by simp
      then show False using 1(2) False by simp
    qed
    have "n div 10 < 10 ^ j" using 1(2) k by (simp add: less_mult_imp_div_less)
    then have "length (dec_digits (n div 10)) \<le> j" using 1(1) False j by simp
    then show ?thesis using False k by (subst dec_digits.simps) simp
  qed
qed

lemma dropWhile_zeros_pad:
  "replicate (length xs - length (dropWhile (\<lambda>d. d = 0) xs)) 0 @ dropWhile (\<lambda>d. d = 0) xs
     = (xs :: nat list)"
  by (induction xs) (auto simp: Suc_diff_le length_dropWhile_le replicate_append_same)

lemma strip_zeros_pad:
  "strip_zeros ds @ replicate (length ds - length (strip_zeros ds)) 0 = ds"
proof -
  have "rev (replicate (length ds - length (dropWhile (\<lambda>d. d = 0) (rev ds))) 0
          @ dropWhile (\<lambda>d. d = 0) (rev ds)) = ds"
    using dropWhile_zeros_pad [of "rev ds"] by simp
  then show ?thesis by (simp add: strip_zeros_def)
qed

lemma length_strip_zeros_le: "length (strip_zeros ds) \<le> length ds"
  by (simp add: strip_zeros_def length_dropWhile_le [of _ "rev ds", simplified])

subsection \<open>The string form of an integer and its parse\<close>

lemma Number_toString_integer:
  assumes "0 < m" "m < 10 ^ 21"
  shows "Number_toString (Finite neg m 0) =
           (if neg then [0x2D] else []) @ map digit_unit (dec_digits m)"
proof -
  let ?all = "dec_digits m"
  let ?ds = "strip_zeros ?all"
  have n: "length ?all \<le> 21" using assms by (simp add: length_dec_digits_le)
  have k: "length ?ds \<le> length ?all" by (rule length_strip_zeros_le)
  have "map digit_unit ?ds @ replicate (length ?all - length ?ds) 0x30
          = map digit_unit (?ds @ replicate (length ?all - length ?ds) 0)"
    by (simp add: digit_unit_def)
  also have "\<dots> = map digit_unit ?all" by (simp only: strip_zeros_pad)
  finally have body: "map digit_unit ?ds @ replicate (length ?all - length ?ds) 0x30
          = map digit_unit ?all" .
  have "nat (int (length ?all) - int (length ?ds)) = length ?all - length ?ds" by simp
  then show ?thesis using assms(1) n k body
    by (simp add: Number_toString_def Let_def)
qed

lemma takeWhile_is_digit_dec_digits:
  "takeWhile is_digit (map digit_unit (dec_digits m)) = map digit_unit (dec_digits m)"
  by (rule takeWhile_eq_all_conv [THEN iffD2])
     (auto simp: is_digit_digit_unit dec_digits_lt_10)

lemma hd_dec_digits_unit:
  "\<exists>c r. map digit_unit (dec_digits m) = c # r \<and> is_digit c"
proof (cases "dec_digits m")
  case Nil
  then show ?thesis using dec_digits_nonempty [of m] by simp
next
  case (Cons a list)
  then have "a < 10" using dec_digits_lt_10 [of a m] by simp
  then show ?thesis using Cons by (simp add: is_digit_digit_unit)
qed

lemma is_digit_not_space: "is_digit c \<Longrightarrow> \<not> is_space c"
  by (auto simp: is_digit_def is_space_def word_le_nat_alt)

lemma is_digit_not_sign: "is_digit c \<Longrightarrow> c \<noteq> 0x2D \<and> c \<noteq> 0x2B"
  by (auto simp: is_digit_def)

lemma parseInt10_integer:
  assumes "m < 10 ^ 21"
  shows "parseInt10 (Num (Finite neg m 0)) =
           (if m = 0 then Finite False 0 0 else Finite neg m 0)"
proof (cases "m = 0")
  case True
  then show ?thesis
    by (simp add: parseInt10_def Number_toString_def lit_def is_space_def take_sign_def
        is_digit_def digits_val_def)
next
  case False
  obtain c r where cr: "map digit_unit (dec_digits m) = c # r" and c: "is_digit c"
    using hd_dec_digits_unit [of m] by auto
  have tw: "takeWhile is_digit (c # r) = c # r"
    using takeWhile_is_digit_dec_digits [of m] cr by simp
  have dv: "digits_val (c # r) = m" using digits_val_dec_digits [of m] cr by simp
  have s: "Number_toString (Finite neg m 0) = (if neg then [0x2D] else []) @ c # r"
    using Number_toString_integer [of m neg] False assms cr by simp
  have minus: "\<not> is_space 0x2D" by (simp add: is_space_def)
  show ?thesis
  proof (cases neg)
    case True
    then show ?thesis using s tw dv minus False
      by (simp add: parseInt10_def take_sign_def Let_def)
  next
    case neg: False
    have "take_sign (c # r) = (False, c # r)"
      using is_digit_not_sign [OF c] by (simp add: take_sign_def)
    then show ?thesis using s tw dv neg False is_digit_not_space [OF c]
      by (simp add: parseInt10_def Let_def)
  qed
qed

lemma slice_to_nat: "slice_to s (Finite False m 0) = take m s"
  by (simp add: slice_to_def integer_part_def Let_def min_def)

lemma Math_max_0:
  "Math_max (Finite False 0 0) (Finite neg m 0) =
     (if neg then Finite False 0 0 else Finite False m 0)"
  by (auto simp add: Math_max_def)

lemma limitTo_integer:
  assumes "\<bar>k\<bar> < 10 ^ 21"
  shows "limitTo v (Num (num_of_int k)) = take (nat k) (ensureString v)"
proof -
  have m: "nat \<bar>k\<bar> < 10 ^ 21" using assms by (simp add: nat_less_iff)
  have p: "parseInt10 (if ToBoolean (Num (num_of_int k)) then Num (num_of_int k)
                       else Num (num_of_int 0))
          = (if k = 0 then Finite False 0 0 else Finite (k < 0) (nat \<bar>k\<bar>) 0)"
    using parseInt10_integer [OF m, of "k < 0"] parseInt10_integer [of 0 False]
    by (auto simp: num_of_int_def)
  show ?thesis
    unfolding limitTo_def p
    by (auto simp: num_of_int_def Math_max_0 slice_to_nat)
qed

lemma limitTo_non_numeric:
  assumes "parseInt10 n = NaN"
  shows "limitTo v n = []"
proof (cases "ToBoolean n")
  case True
  then show ?thesis using assms by (simp add: limitTo_def Math_max_def slice_to_def)
next
  case False
  have "parseInt10 (Num (num_of_int 0)) = Finite False 0 0"
    using parseInt10_integer [of 0 False] by (simp add: num_of_int_def)
  then show ?thesis using False
    by (simp add: limitTo_def num_of_int_def Math_max_0 slice_to_nat)
qed

lemma limitTo_hello_3: "limitTo (Str (lit ''hello'')) (Num (num_of_int 3)) = lit ''hel''"
  using limitTo_integer [of 3 "Str (lit ''hello'')"] by (simp add: ensureString_def lit_def)

lemma limitTo_hi_10: "limitTo (Str (lit ''hi'')) (Num (num_of_int 10)) = lit ''hi''"
  using limitTo_integer [of 10 "Str (lit ''hi'')"] by (simp add: ensureString_def lit_def)

text \<open>
  C6, as the code has it. For every value \<open>v\<close> and every integer \<open>n\<close> of magnitude below
  \<open>10\<^sup>2\<^sup>1\<close>, \<open>limitTo(v, n)\<close> is the first \<open>n\<close> code units of the string form of \<open>v\<close>,
  \<open>n\<close> clamped to at least 0; an \<open>n\<close> that \<^verbatim>\<open>parseInt\<close> reads as NaN gives the empty
  string; \<open>limitTo("hello", 3)\<close> is \<open>"hel"\<close> and \<open>limitTo("hi", 10)\<close> is \<open>"hi"\<close>.
\<close>

theorem limitTo_first_n:
  "(\<bar>k\<bar> < 10 ^ 21 \<longrightarrow>
      limitTo v (Num (num_of_int k)) = take (nat (max 0 k)) (ensureString v))
   \<and> (parseInt10 n = NaN \<longrightarrow> limitTo v n = [])
   \<and> limitTo (Str (lit ''hello'')) (Num (num_of_int 3)) = lit ''hel''
   \<and> limitTo (Str (lit ''hi'')) (Num (num_of_int 10)) = lit ''hi''"
proof -
  have "nat (max 0 k) = nat k" by simp
  then show ?thesis
    using limitTo_integer [of k v] limitTo_non_numeric [of n v] limitTo_hello_3 limitTo_hi_10
    by simp
qed

theorem limitTo_first_n_witness:
  "\<bar>2 :: int\<bar> < 10 ^ 21
   \<and> limitTo (Str (lit ''hello'')) (Num (num_of_int 2)) = lit ''he''
   \<and> parseInt10 (Str (lit ''abc'')) = NaN
   \<and> limitTo (Str (lit ''hello'')) (Str (lit ''abc'')) = []"
proof -
  have a: "\<bar>2 :: int\<bar> < 10 ^ 21" by simp
  have b: "parseInt10 (Str (lit ''abc'')) = NaN"
    by (simp add: parse_defs lit_def is_digit_def)
  show ?thesis
    using a b limitTo_first_n [of 2 "Str (lit ''hello'')" "Str (lit ''abc'')"]
    by (simp add: ensureString_def lit_def)
qed

text \<open>
  C6 as stated fails for the number \<open>10\<^sup>2\<^sup>1\<close>: its string form is \<open>1e+21\<close>, which
  \<^verbatim>\<open>parseInt\<close> reads as 1, so one code unit is kept where the first \<open>10\<^sup>2\<^sup>1\<close> are the
  whole string.
\<close>

theorem limitTo_counterexample:
  "limitTo (Str (lit ''hello'')) (Num (num_of_int (10 ^ 21))) = lit ''h''
   \<and> take (10 ^ 21) (lit ''hello'') = lit ''hello''"
  by (simp add: limitTo_defs parse_defs number_defs)

subsection \<open>Case conversion\<close>

lemma ensureString_Str: "ensureString (Str s) = s"
  by (simp add: ensureString_def)






subsection \<open>Filters on null, undefined and empty objects\<close>

lemma no_own_keys_cases:
  assumes "v = Null \<or> v = Undefined \<or> (typeof_object v \<and> length (Object_keys v) = 0)"
  shows "v = Null \<or> v = Undefined \<or> v = Arr [] \<or> v = Obj []"
  using assms by (cases v) auto

lemma ensureString_empty:
  "v = Null \<or> v = Undefined \<or> (typeof_object v \<and> length (Object_keys v) = 0)
   \<Longrightarrow> ensureString v = []"
  by (simp add: ensureString_def)

lemma parseFloat_empty:
  assumes "v = Null \<or> v = Undefined \<or> (typeof_object v \<and> length (Object_keys v) = 0)"
  shows "parseFloat v = NaN"
proof -
  have "parseFloat Null = NaN" "parseFloat Undefined = NaN" "parseFloat (Arr []) = NaN"
    "parseFloat (Obj []) = NaN"
    by (simp_all add: parse_defs lit_def is_digit_def)
  then show ?thesis using no_own_keys_cases [OF assms] by auto
qed

lemma date_pattern_Nil: "\<not> date_pattern []"
  by (simp add: date_pattern_def)

lemma filters_on_empty:
  assumes "v = Null \<or> v = Undefined \<or> (typeof_object v \<and> length (Object_keys v) = 0)"
  shows "upper v = []" "lower v = []" "capitalize v = []" "number v frac = Inr []"
    "numflex v = []" "currency v = []" "date P v fmt = Inr []" "limitTo v n = []"
proof -
  have e: "ensureString v = []" using assms by (rule ensureString_empty)
  have p: "parseFloat v = NaN" using assms by (rule parseFloat_empty)
  show "upper v = []" by (simp add: upper_def e toUpperCase_def)
  show "lower v = []" by (simp add: lower_def e toLowerCase_def)
  show "capitalize v = []" by (simp add: capitalize_def e)
  show "number v frac = Inr []" by (simp add: number_def p e isNaN_def)
  show "numflex v = []" by (simp add: numflex_def p e isNaN_def)
  show "currency v = []" by (simp add: currency_def p e isNaN_def)
  show "date P v fmt = Inr []"
    by (simp add: date_def e swap_day_month_def date_pattern_Nil Date_parse_def)
  show "limitTo v n = []" by (simp add: limitTo_def e slice_to_def)
qed

lemma json_on_empty:
  "json Null = Str (lit ''null'')" "json Undefined = Undefined"
  "json (Arr []) = Str (lit ''[]'')" "json (Obj []) = Str (lit ''{}'')"
  by (simp_all add: json_def JSON_stringify_def)

text \<open>
  C1, as the code has it. For every input that is null, undefined or an object without
  own keys, the filters upper, lower, capitalize, number, numflex, currency, date and
  limitTo yield the empty string and do not raise, whatever their arguments. The filter
  json does not raise either, and yields the JSON text of the input: \<open>null\<close> for null,
  \<open>{}\<close> and \<open>[]\<close> for an empty object and an empty array, and undefined for undefined.
\<close>

theorem filters_on_empty_input:
  assumes "v = Null \<or> v = Undefined \<or> (typeof_object v \<and> length (Object_keys v) = 0)"
  shows "upper v = [] \<and> lower v = [] \<and> capitalize v = [] \<and> number v frac = Inr []
    \<and> numflex v = [] \<and> currency v = [] \<and> date P v fmt = Inr [] \<and> limitTo v n = []
    \<and> json v = (case v of Null \<Rightarrow> Str (lit ''null'') | Arr xs \<Rightarrow> Str (lit ''[]'')
                 | Obj kvs \<Rightarrow> Str (lit ''{}'') | _ \<Rightarrow> Undefined)"
proof -
  have "json v = (case v of Null \<Rightarrow> Str (lit ''null'') | Arr xs \<Rightarrow> Str (lit ''[]'')
                 | Obj kvs \<Rightarrow> Str (lit ''{}'') | _ \<Rightarrow> Undefined)"
    using no_own_keys_cases [OF assms] json_on_empty by auto
  then show ?thesis using filters_on_empty [OF assms] by simp
qed

theorem filters_on_empty_input_witness:
  "typeof_object (Obj []) \<and> length (Object_keys (Obj [])) = 0
   \<and> upper (Obj []) = [] \<and> number (Obj []) (Num (num_of_int 2)) = Inr []
   \<and> date (example_platform 0) (Obj []) Undefined = Inr []
   \<and> limitTo (Obj []) (Num (num_of_int 3)) = []
   \<and> json (Obj []) = Str (lit ''{}'')"
  using filters_on_empty_input
    [of "Obj []" "Num (num_of_int 2)" "example_platform 0" Undefined "Num (num_of_int 3)"]
  by simp

text \<open>
  C1 as stated fails for the filter json: \<^verbatim>\<open>JSON.stringify\<close> does not fail on null or on an
  empty object, so the fallback to the empty string is not taken and the result is the
  text \<open>null\<close>, or \<open>{}\<close>.
\<close>

theorem json_null_counterexample:
  "json Null = Str [0x6E, 0x75, 0x6C, 0x6C] \<and> json (Obj []) = Str [0x7B, 0x7D]"
  by (simp add: json_on_empty lit_def)

subsection \<open>Expressions on an absent path\<close>







subsection \<open>Reports of the route\<close>

lemma messages_distinct:
  "distinct [msg_no_template, msg_server, msg_render, msg_too_large, msg_upload, msg_unknown]"
  by (simp add: msg_no_template_def msg_server_def msg_render_def msg_too_large_def
      msg_upload_def msg_unknown_def)

lemma generate_no_template:
  "req_file req = None \<Longrightarrow>
     generate E P now req = Json 400 (Obj [(lit ''message'', Str msg_no_template)])"
  by (simp add: generate_def)

lemma generate_malformed:
  "req_file req = Some f \<Longrightarrow> PizZip E (buffer f) = Inl err \<Longrightarrow>
     generate E P now req = Json 500 (report msg_server (Str (err_string err)))"
  by (simp add: generate_def merge_def)

lemma generate_render_error:
  "req_file req = Some f \<Longrightarrow> PizZip E (buffer f) = Inr z \<Longrightarrow>
   Docxtemplater E z \<lparr>paragraphLoop = True, linebreaks = True, parser_option = parser P\<rparr>
     = Inr d \<Longrightarrow>
   render E d (formData P req) = Inl err \<Longrightarrow>
     generate E P now req = Json 500 (report msg_render (render_details err))"
  by (simp add: generate_def merge_def)

lemma merge_Json:
  "merge E P now f data fileName = Inr (Json st body) \<Longrightarrow>
     st = 500 \<and> (\<exists>err::thrown. body = report msg_render (render_details err))"
  by (auto simp: merge_def split: sum.splits)

lemma generate_Json:
  assumes "generate E P now req = Json st body"
  shows "(st = 400 \<and> body = Obj [(lit ''message'', Str msg_no_template)])
       \<or> (st = 500 \<and> (\<exists>err::thrown. body = report msg_server (Str (err_string err))))
       \<or> (st = 500 \<and> (\<exists>err::thrown. body = report msg_render (render_details err)))"
proof (cases "req_file req")
  case None
  then show ?thesis using assms by (simp add: generate_def)
next
  case (Some f)
  show ?thesis
  proof (cases "merge E P now f (formData P req) (body_fileName req)")
    case (Inl err)
    then have "st = 500 \<and> body = report msg_server (Str (err_string err))"
      using assms Some by (auto simp: generate_def)
    then show ?thesis by blast
  next
    case (Inr res)
    then have "res = Json st body" using assms Some by (simp add: generate_def)
    then show ?thesis using merge_Json Inr by blast
  qed
qed

lemma error_middleware_Json:
  "\<exists>st m d. error_middleware err = Json st (report m d)
     \<and> (m = msg_too_large \<or> m = msg_upload \<or> m = msg_unknown)"
proof -
  have "error_middleware err = Json 413 (report msg_too_large (err_message err))
      \<or> error_middleware err = Json 400 (report msg_upload (err_message err))
      \<or> error_middleware err = Json 500 (report msg_unknown (Str (err_string err)))"
    by (simp add: error_middleware_def)
  then show ?thesis by blast
qed

lemma has_details_report: "has_details (report m d)"
  by (simp add: has_details_def report_def)

lemma no_details_no_template: "\<not> has_details (Obj [(lit ''message'', Str msg_no_template)])"
  by (simp add: has_details_def lit_def)

text \<open>
  C8, as the code has it. A request without a template gets status 400 and a report
  with a message and no details. When PizZip rejects the container, the report is
  \<open>{message, details}\<close> with the server message and the string form of the error; when
  rendering fails, it is \<open>{message, details}\<close> with the render message and, as details,
  the error list of the render error when it has one. Every failure of the handler is
  one of these three, an upload that multer refuses is reported by the error middleware
  as \<open>{message, details}\<close> with a message of its own, and all six messages differ.
\<close>

theorem generate_failure_reports:
  "(req_file req = None \<longrightarrow>
      generate E P now req = Json 400 (Obj [(lit ''message'', Str msg_no_template)]))
   \<and> (req_file req = Some f \<and> PizZip E (buffer f) = Inl err \<longrightarrow>
      generate E P now req = Json 500 (report msg_server (Str (err_string err))))
   \<and> (req_file req = Some f \<and> PizZip E (buffer f) = Inr z
      \<and> Docxtemplater E z
           \<lparr>paragraphLoop = True, linebreaks = True, parser_option = parser P\<rparr> = Inr d
      \<and> render E d (formData P req) = Inl rerr \<longrightarrow>
      generate E P now req = Json 500 (report msg_render (render_details rerr))
      \<and> (ToBoolean (err_errors rerr) \<longrightarrow> render_details rerr = err_errors rerr))
   \<and> (post_generate E P now (Inr req) = Json st body \<longrightarrow>
        (st = 400 \<and> body = Obj [(lit ''message'', Str msg_no_template)] \<and> \<not> has_details body)
      \<or> (st = 500 \<and> has_details body
          \<and> (\<exists>e::thrown. body = report msg_server (Str (err_string e))))
      \<or> (st = 500 \<and> has_details body
          \<and> (\<exists>e::thrown. body = report msg_render (render_details e))))
   \<and> (\<exists>st' m d. post_generate E P now (Inl uerr) = Json st' (report m d)
        \<and> (m = msg_too_large \<or> m = msg_upload \<or> m = msg_unknown))
   \<and> distinct [msg_no_template, msg_server, msg_render, msg_too_large, msg_upload, msg_unknown]"
proof -
  have a: "post_generate E P now (Inr req) = Json st body \<longrightarrow>
        (st = 400 \<and> body = Obj [(lit ''message'', Str msg_no_template)] \<and> \<not> has_details body)
      \<or> (st = 500 \<and> has_details body
          \<and> (\<exists>e::thrown. body = report msg_server (Str (err_string e))))
      \<or> (st = 500 \<and> has_details body
          \<and> (\<exists>e::thrown. body = report msg_render (render_details e)))"
    using generate_Json [of E P now req st body] has_details_report no_details_no_template
    by (auto simp: post_generate_def)
  have b: "\<exists>st' m d. post_generate E P now (Inl uerr) = Json st' (report m d)
        \<and> (m = msg_too_large \<or> m = msg_upload \<or> m = msg_unknown)"
    using error_middleware_Json [of uerr] by (simp add: post_generate_def)
  have c: "ToBoolean (err_errors rerr) \<longrightarrow> render_details rerr = err_errors rerr"
    by (simp add: render_details_def)
  show ?thesis
    using a b c messages_distinct generate_no_template [of req E P now]
      generate_malformed [of req f E err P now] generate_render_error [of req f E z P d rerr now]
    by blast
qed

lemma example_render_fails:
  "req_file (example_request (lit ''null'')) = Some example_upload
   \<and> PizZip example_engine (buffer example_upload) = Inr [0x50, 0x4B]
   \<and> Docxtemplater example_engine [0x50, 0x4B]
        \<lparr>paragraphLoop = True, linebreaks = True, parser_option = parser (example_platform 0)\<rparr>
      = Inr ([0x50, 0x4B], Undefined)
   \<and> render example_engine ([0x50, 0x4B], Undefined)
        (formData (example_platform 0) (example_request (lit ''null''))) = Inl example_render_error
   \<and> ToBoolean (err_errors example_render_error)"
  by (simp add: example_request_def example_upload_def example_engine_def formData_def
      example_platform_def example_render_error_def lit_def)

theorem generate_failure_reports_witness:
  "req_file (example_request (lit ''null'')) = Some example_upload
   \<and> PizZip example_engine (buffer example_upload) = Inr [0x50, 0x4B]
   \<and> Docxtemplater example_engine [0x50, 0x4B]
        \<lparr>paragraphLoop = True, linebreaks = True, parser_option = parser (example_platform 0)\<rparr>
      = Inr ([0x50, 0x4B], Undefined)
   \<and> render example_engine ([0x50, 0x4B], Undefined)
        (formData (example_platform 0) (example_request (lit ''null''))) = Inl example_render_error
   \<and> ToBoolean (err_errors example_render_error)
   \<and> generate example_engine (example_platform 0) 0 (example_request (lit ''null''))
       = Json 500 (report msg_render
           (Arr [Obj [(lit ''name'', Str (lit ''ScopeParserError''))]]))"
proof -
  have "err_errors example_render_error
      = Arr [Obj [(lit ''name'', Str (lit ''ScopeParserError''))]]"
    by (simp add: example_render_error_def)
  then show ?thesis
    using example_render_fails
      generate_failure_reports [of "example_request (lit ''null'')" example_engine
        "example_platform 0" 0 example_upload example_render_error "[0x50, 0x4B]"
        "([0x50, 0x4B], Undefined)" example_render_error 500 Null example_render_error]
    by simp
qed

text \<open>
  C8 as stated fails for a request without a template: its report has a message and no
  details.
\<close>

theorem no_template_counterexample:
  "post_generate example_engine (example_platform 0) 0
     (Inr \<lparr>req_file = None, body_data = Str (lit ''{}''), body_fileName = Undefined\<rparr>)
     = Json 400 (Obj [(lit ''message'', Str msg_no_template)])
   \<and> \<not> has_details (Obj [(lit ''message'', Str msg_no_template)])"
  by (simp add: post_generate_def generate_def no_details_no_template)

subsection \<open>The data field\<close>

text \<open>
  C10. When the request has a template and its field data is present and is not JSON,
  the scope is the empty object and the response is that of the merge on the empty
  object: the same as for a request without the field. The request is not rejected
  for its data.
\<close>

theorem invalid_data_is_empty_object:
  assumes "req_file req = Some f" "ToBoolean (body_data req)"
    "JSON_parse P (ToString (body_data req)) = None"
  shows "formData P req = Obj []
    \<and> generate E P now req =
        (case merge E P now f (Obj []) (body_fileName req) of
           Inl err \<Rightarrow> Json 500 (report msg_server (Str (err_string err)))
         | Inr res \<Rightarrow> res)
    \<and> generate E P now req = generate E P now (req\<lparr>body_data := Undefined\<rparr>)"
  using assms by (simp add: generate_def formData_def)

lemma civil_from_days_19727: "civil_from_days 19727 = (2024, 1, 5)"
  by code_simp

lemma day_19727: "(1704412800000::int) div 86400000 = 19727"
  by simp

lemma padded_2024_01_05:
  "pad_left 4 0x30 (decimal 2024) = lit ''2024''" "padStart2 (decimal 1) = lit ''01''"
  "padStart2 (decimal 5) = lit ''05''"
  by (simp_all add: padStart2_def pad_left_def decimal_def number_defs)

lemma toISOString_date_example: "toISOString_date 1704412800000 = lit ''2024-01-05''"
  unfolding toISOString_date_def day_19727 civil_from_days_19727
  by (simp only: Let_def prod.case padded_2024_01_05) (simp add: lit_def)

lemma strip_docx_example: "strip_docx (lit ''Mau.docx'') = lit ''Mau''"
  by (simp add: strip_docx_def toUpperCase_def toUpperCase_unit_def lit_def)

lemma outName_example:
  "outName 1704412800000 example_upload Undefined = lit ''HoSoTSBD_Mau_2024-01-05.docx''"
  using toISOString_date_example strip_docx_example
  by (simp add: outName_def example_upload_def) (simp add: lit_def)

lemma example_outName:
  "encodeFilename (outName 1704412800000 example_upload Undefined)
     = Inr (lit ''HoSoTSBD_Mau_2024-01-05.docx'')"
  unfolding outName_example
  by (simp add: encodeFilename_def uri_unescaped_def lit_def)

lemma example_merge_dated:
  "merge example_engine (example_platform 0) 1704412800000 example_upload (Obj []) Undefined
    = Inr (Download
           [(lit ''Content-Type'',
             lit ''application/vnd.openxmlformats-officedocument.wordprocessingml.document''),
            (lit ''Content-Disposition'',
             lit ''attachment; filename='' @ [0x22] @ lit ''HoSoTSBD_Mau_2024-01-05.docx'' @ [0x22]
               @ lit ''; filename*=UTF-8'' @ [0x27, 0x27] @ lit ''HoSoTSBD_Mau_2024-01-05.docx'')]
           [0x50, 0x4B])"
  using example_outName
  by (simp add: merge_def example_engine_def example_upload_def)

theorem invalid_data_is_empty_object_witness:
  "req_file (example_request (lit ''{oops'')) = Some example_upload
   \<and> ToBoolean (body_data (example_request (lit ''{oops'')))
   \<and> JSON_parse (example_platform 0) (ToString (body_data (example_request (lit ''{oops''))))
       = None
   \<and> formData (example_platform 0) (example_request (lit ''{oops'')) = Obj []
   \<and> generate example_engine (example_platform 0) 1704412800000 (example_request (lit ''{oops''))
       = Download
           [(lit ''Content-Type'',
             lit ''application/vnd.openxmlformats-officedocument.wordprocessingml.document''),
            (lit ''Content-Disposition'',
             lit ''attachment; filename='' @ [0x22] @ lit ''HoSoTSBD_Mau_2024-01-05.docx'' @ [0x22]
               @ lit ''; filename*=UTF-8'' @ [0x27, 0x27] @ lit ''HoSoTSBD_Mau_2024-01-05.docx'')]
           [0x50, 0x4B]"
proof -
  have a: "req_file (example_request (lit ''{oops'')) = Some example_upload"
    by (simp add: example_request_def)
  have b: "ToBoolean (body_data (example_request (lit ''{oops'')))"
    by (simp add: example_request_def lit_def)
  have c: "JSON_parse (example_platform 0)
      (ToString (body_data (example_request (lit ''{oops'')))) = None"
    by (simp add: example_request_def example_platform_def lit_def)
  have d: "merge example_engine (example_platform 0) 1704412800000 example_upload (Obj [])
      (body_fileName (example_request (lit ''{oops'')))
    = merge example_engine (example_platform 0) 1704412800000 example_upload (Obj []) Undefined"
    by (simp add: example_request_def)
  show ?thesis
    using a b c d example_merge_dated
      invalid_data_is_empty_object [OF a b c, of example_engine 1704412800000]
    by simp
qed

subsection \<open>Two runs on the same template and data\<close>





subsection \<open>Number formatting\<close>



lemma fixed_digits_lt_10: "d \<in> set (fixed_digits f r) \<Longrightarrow> d < 10"
  by (induction f arbitrary: r) auto










































subsection \<open>The date filter\<close>

lemma is_sep_not_digit: "is_sep c \<Longrightarrow> \<not> is_digit c"
  by (auto simp: is_sep_def is_digit_def)

lemma takeWhile_digits_sep:
  assumes "list_all is_digit d" "is_sep a"
  shows "takeWhile is_digit (d @ a # r) = d" "dropWhile is_digit (d @ a # r) = a # r"
proof -
  have na: "\<not> is_digit a" using assms(2) by (rule is_sep_not_digit)
  have all: "\<And>x. x \<in> set d \<Longrightarrow> is_digit x" using assms(1) by (simp add: list_all_iff)
  show "takeWhile is_digit (d @ a # r) = d"
    using all na by (simp add: takeWhile_append2)
  show "dropWhile is_digit (d @ a # r) = a # r"
    using all na by (simp add: dropWhile_append2)
qed

lemma split_on_no_sep:
  "list_all (\<lambda>c. \<not> sep c) xs \<Longrightarrow> split_on sep xs = [xs]"
  by (induction xs) auto

lemma split_on_append:
  "list_all (\<lambda>c. \<not> sep c) xs \<Longrightarrow> sep a \<Longrightarrow> split_on sep (xs @ a # r) = xs # split_on sep r"
  by (induction xs) auto

lemma digits_no_sep: "list_all is_digit d \<Longrightarrow> list_all (\<lambda>c. \<not> is_sep c) d"
  using is_sep_not_digit by (auto simp: list_all_iff)

lemma date_pattern_parts:
  assumes "list_all is_digit d" "length d = 1 \<or> length d = 2" "is_sep a"
    "list_all is_digit m" "length m = 1 \<or> length m = 2" "is_sep b"
    "list_all is_digit y" "length y = 4"
  shows "date_pattern (d @ [a] @ m @ [b] @ y)"
    and "swap_day_month (d @ [a] @ m @ [b] @ y) = m @ [0x2F] @ d @ [0x2F] @ y"
proof -
  have t1: "takeWhile is_digit (d @ a # m @ b # y) = d"
    "dropWhile is_digit (d @ a # m @ b # y) = a # m @ b # y"
    using takeWhile_digits_sep [OF assms(1,3)] by simp_all
  have t2: "takeWhile is_digit (m @ b # y) = m" "dropWhile is_digit (m @ b # y) = b # y"
    using takeWhile_digits_sep [OF assms(4,6)] by simp_all
  show p: "date_pattern (d @ [a] @ m @ [b] @ y)"
    using assms is_sep_not_digit [OF assms(3)] is_sep_not_digit [OF assms(6)]
    by (simp add: date_pattern_def t1 t2)
  have "split_on is_sep (d @ a # m @ b # y) = d # split_on is_sep (m @ b # y)"
    using split_on_append [OF digits_no_sep [OF assms(1)] assms(3)] by simp
  also have "split_on is_sep (m @ b # y) = m # split_on is_sep y"
    using split_on_append [OF digits_no_sep [OF assms(4)] assms(6)] by simp
  also have "split_on is_sep y = [y]"
    using split_on_no_sep [OF digits_no_sep [OF assms(7)]] .
  finally have "split_on is_sep (d @ [a] @ m @ [b] @ y) = [d, m, y]" by simp
  then show "swap_day_month (d @ [a] @ m @ [b] @ y) = m @ [0x2F] @ d @ [0x2F] @ y"
    using p by (simp add: swap_day_month_def part_def)
qed

lemma date_pattern_shape:
  assumes "date_pattern s"
  shows "\<exists>d a m b y. s = d @ [a] @ m @ [b] @ y
     \<and> list_all is_digit d \<and> (length d = 1 \<or> length d = 2) \<and> is_sep a
     \<and> list_all is_digit m \<and> (length m = 1 \<or> length m = 2) \<and> is_sep b
     \<and> list_all is_digit y \<and> length y = 4"
proof -
  define d where "d = takeWhile is_digit s"
  define r1 where "r1 = dropWhile is_digit s"
  define m where "m = takeWhile is_digit (drop 1 r1)"
  define r2 where "r2 = dropWhile is_digit (drop 1 r1)"
  define y where "y = drop 1 r2"
  from assms have f: "(length d = 1 \<or> length d = 2)" "r1 \<noteq> []" "is_sep (hd r1)"
    "(length m = 1 \<or> length m = 2)" "r2 \<noteq> []" "is_sep (hd r2)" "length y = 4"
    "list_all is_digit y"
    unfolding date_pattern_def d_def r1_def m_def r2_def y_def Let_def by blast+
  have s: "s = d @ r1" by (simp add: d_def r1_def)
  have r1: "r1 = hd r1 # drop 1 r1" using f(2) by (cases r1) simp_all
  have dr: "drop 1 r1 = m @ r2" by (simp add: m_def r2_def)
  have r2: "r2 = hd r2 # y" using f(5) by (cases r2) (simp_all add: y_def)
  have "s = d @ [hd r1] @ m @ [hd r2] @ y"
    using s r1 dr r2 by (metis append_Cons append_Nil)
  moreover have "list_all is_digit d" "list_all is_digit m"
    by (simp_all add: d_def m_def list_all_iff) (meson set_takeWhileD)+
  ultimately show ?thesis using f by blast
qed

lemma date_unparseable:
  "Date_parse P (swap_day_month (ensureString input)) = None \<Longrightarrow>
     date P input fmt = Inr (ensureString input)"
  by (simp add: date_def)

lemma date_rendered:
  "Date_parse P (swap_day_month (ensureString input)) = Some t \<Longrightarrow>
     date P input (Str f) =
       Inr (replace_first (lit ''yyyy'') (decimal (getFullYear P t))
             (replace_first (lit ''MM'') (padStart2 (decimal (getMonth P t + 1)))
               (replace_first (lit ''dd'') (padStart2 (decimal (getDate P t))) f)))"
  by (simp add: date_def)

lemma days_from_civil_examples:
  "days_from_civil 2024 1 5 = 19727" "days_from_civil 999 1 1 = - 354650"
  by code_simp+

lemma civil_from_days_examples:
  "civil_from_days 19726 = (2024, 1, 4)" "civil_from_days (- 354650) = (999, 1, 1)"
  by code_simp+

lemma not_date_pattern_iso:
  "\<not> date_pattern (lit ''2024-01-05'')" "\<not> date_pattern (lit ''0999-01-01'')"
  by (simp_all add: date_pattern_def lit_def is_digit_def)

lemma iso_date_only_examples:
  "iso_date_only (lit ''2024-01-05'') = Some (2024, 1, 5)"
  "iso_date_only (lit ''0999-01-01'') = Some (999, 1, 1)"
  by (simp_all add: iso_date_only_def lit_def is_digit_def digits_val_def days_in_month_def)

lemma Date_parse_examples:
  "Date_parse P (swap_day_month (ensureString (Str (lit ''2024-01-05'')))) = Some 1704412800000"
  "Date_parse P (swap_day_month (ensureString (Str (lit ''0999-01-01'')))) = Some (- 30641760000000)"
proof -
  have a: "lit ''2024-01-05'' \<noteq> []" "lit ''0999-01-01'' \<noteq> []" by (simp_all add: lit_def)
  show "Date_parse P (swap_day_month (ensureString (Str (lit ''2024-01-05'')))) = Some 1704412800000"
    using a(1)
    by (simp add: ensureString_Str swap_day_month_def not_date_pattern_iso Date_parse_def
        iso_date_only_examples days_from_civil_examples)
  show "Date_parse P (swap_day_month (ensureString (Str (lit ''0999-01-01'')))) = Some (- 30641760000000)"
    using a(2)
    by (simp add: ensureString_Str swap_day_month_def not_date_pattern_iso Date_parse_def
        iso_date_only_examples days_from_civil_examples)
qed

lemma padded_examples:
  "padStart2 (decimal 4) = lit ''04''" "decimal 999 = lit ''999''" "decimal 2024 = lit ''2024''"
  by (simp_all add: padStart2_def pad_left_def decimal_def number_defs)

lemma render_examples:
  "replace_first (lit ''yyyy'') (lit ''2024'')
     (replace_first (lit ''MM'') (lit ''01'') (replace_first (lit ''dd'') (lit ''05'') (lit ''dd/MM/yyyy'')))
     = lit ''05/01/2024''"
  "replace_first (lit ''yyyy'') (lit ''2024'')
     (replace_first (lit ''MM'') (lit ''01'') (replace_first (lit ''dd'') (lit ''04'') (lit ''dd/MM/yyyy'')))
     = lit ''04/01/2024''"
  "replace_first (lit ''yyyy'') (lit ''999'')
     (replace_first (lit ''MM'') (lit ''01'') (replace_first (lit ''dd'') (lit ''01'') (lit ''dd/MM/yyyy'')))
     = lit ''01/01/999''"
  by (simp_all add: lit_def starts_with_def)

lemma local_date_2024_01_05:
  assumes "0 \<le> LocalTZA P 1704412800000" "LocalTZA P 1704412800000 < 86400000"
  shows "local_date P 1704412800000 = (2024, 1, 5)"
proof -
  have "(1704412800000 + LocalTZA P 1704412800000) div 86400000 = 19727"
    using assms by linarith
  then show ?thesis by (simp add: local_date_def civil_from_days_19727)
qed

lemma date_2024_01_05:
  assumes "0 \<le> LocalTZA P 1704412800000" "LocalTZA P 1704412800000 < 86400000"
  shows "date P (Str (lit ''2024-01-05'')) (Str (lit ''dd/MM/yyyy'')) = Inr (lit ''05/01/2024'')"
  unfolding date_rendered [OF Date_parse_examples(1)] getDate_def getMonth_def getFullYear_def
    local_date_2024_01_05 [OF assms]
  by (simp add: padded_2024_01_05 padded_examples render_examples)


text \<open>
  C2, as the code has it. A string of one or two digits, a separator, one or two
  digits, a separator and four digits, and no other string, matches the pattern; its
  first two components are swapped and joined by slashes before the date is
  constructed. When the date cannot be parsed, the result is the string form of the
  input. Otherwise the first \<open>dd\<close> of the format is replaced by the zero-padded day,
  the first \<open>MM\<close> by the zero-padded month and the first \<open>yyyy\<close> by the year in
  decimal, all three read in local time. Where local time is at or ahead of UTC by less
  than a day, \<open>date("2024-01-05", "dd/MM/yyyy")\<close> is \<open>05/01/2024\<close>.
\<close>

theorem date_filter:
  "(list_all is_digit d \<and> (length d = 1 \<or> length d = 2) \<and> is_sep a
      \<and> list_all is_digit m \<and> (length m = 1 \<or> length m = 2) \<and> is_sep b
      \<and> list_all is_digit y \<and> length y = 4 \<longrightarrow>
      date_pattern (d @ [a] @ m @ [b] @ y)
      \<and> swap_day_month (d @ [a] @ m @ [b] @ y) = m @ [0x2F] @ d @ [0x2F] @ y)
   \<and> (date_pattern s \<longrightarrow>
        (\<exists>d a m b y. s = d @ [a] @ m @ [b] @ y
           \<and> list_all is_digit d \<and> (length d = 1 \<or> length d = 2) \<and> is_sep a
           \<and> list_all is_digit m \<and> (length m = 1 \<or> length m = 2) \<and> is_sep b
           \<and> list_all is_digit y \<and> length y = 4))
   \<and> (\<not> date_pattern s \<longrightarrow> swap_day_month s = s)
   \<and> (Date_parse P (swap_day_month (ensureString input)) = None \<longrightarrow>
        date P input fmt = Inr (ensureString input))
   \<and> (Date_parse P (swap_day_month (ensureString input)) = Some t \<longrightarrow>
        date P input (Str f) =
          Inr (replace_first (lit ''yyyy'') (decimal (getFullYear P t))
                (replace_first (lit ''MM'') (padStart2 (decimal (getMonth P t + 1)))
                  (replace_first (lit ''dd'') (padStart2 (decimal (getDate P t))) f))))
   \<and> (0 \<le> LocalTZA P 1704412800000 \<and> LocalTZA P 1704412800000 < 86400000 \<longrightarrow>
        date P (Str (lit ''2024-01-05'')) (Str (lit ''dd/MM/yyyy'')) = Inr (lit ''05/01/2024''))"
proof -
  have a: "\<not> date_pattern s \<longrightarrow> swap_day_month s = s" by (simp add: swap_day_month_def)
  show ?thesis
    using a date_pattern_parts [of d a m b y] date_pattern_shape [of s]
      date_unparseable [of P input fmt] date_rendered [of P input t f] date_2024_01_05 [of P]
    by blast
qed


theorem date_filter_witness:
  "list_all is_digit (lit ''5'') \<and> length (lit ''5'') = 1 \<and> is_sep 0x2F
   \<and> list_all is_digit (lit ''1'') \<and> length (lit ''1'') = 1
   \<and> list_all is_digit (lit ''2024'') \<and> length (lit ''2024'') = 4
   \<and> swap_day_month (lit ''5/1/2024'') = lit ''1/5/2024''
   \<and> Date_parse (example_platform 0) (swap_day_month (ensureString (Str (lit ''5/1/2024''))))
       = None
   \<and> date (example_platform 0) (Str (lit ''5/1/2024'')) Undefined = Inr (lit ''5/1/2024'')
   \<and> 0 \<le> LocalTZA (example_platform 25200000) 1704412800000
   \<and> LocalTZA (example_platform 25200000) 1704412800000 < 86400000
   \<and> date (example_platform 25200000) (Str (lit ''2024-01-05'')) (Str (lit ''dd/MM/yyyy''))
       = Inr (lit ''05/01/2024'')"
proof -
  have h: "list_all is_digit (lit ''5'')" "length (lit ''5'') = 1" "is_sep 0x2F"
    "list_all is_digit (lit ''1'')" "length (lit ''1'') = 1"
    "list_all is_digit (lit ''2024'')" "length (lit ''2024'') = 4"
    by (simp_all add: lit_def is_digit_def is_sep_def)
  have e: "lit ''5'' @ [0x2F] @ lit ''1'' @ [0x2F] @ lit ''2024'' = lit ''5/1/2024''"
    "lit ''1'' @ [0x2F] @ lit ''5'' @ [0x2F] @ lit ''2024'' = lit ''1/5/2024''"
    by (simp_all add: lit_def)
  have sw: "swap_day_month (lit ''5/1/2024'') = lit ''1/5/2024''"
    using h e
      date_filter [of "lit ''5''" "0x2F" "lit ''1''" "0x2F" "lit ''2024''" "[]"
        "example_platform 0" "Str (lit ''5/1/2024'')" Undefined 0 "[]"]
    by simp
  have dp: "Date_parse (example_platform 0)
      (swap_day_month (ensureString (Str (lit ''5/1/2024'')))) = None"
    unfolding ensureString_Str sw
    by (simp add: Date_parse_def iso_date_only_def example_platform_def lit_def)
  have tz: "0 \<le> LocalTZA (example_platform 25200000) 1704412800000"
    "LocalTZA (example_platform 25200000) 1704412800000 < 86400000"
    by (simp_all add: example_platform_def)
  have d1: "date (example_platform 0) (Str (lit ''5/1/2024'')) Undefined = Inr (lit ''5/1/2024'')"
    using dp
      date_filter [of "lit ''5''" "0x2F" "lit ''1''" "0x2F" "lit ''2024''" "[]"
        "example_platform 0" "Str (lit ''5/1/2024'')" Undefined 0 "[]"]
    by (simp add: ensureString_Str)
  have d2: "date (example_platform 25200000) (Str (lit ''2024-01-05'')) (Str (lit ''dd/MM/yyyy''))
       = Inr (lit ''05/01/2024'')"
    using tz
      date_filter [of "[]" 0 "[]" 0 "[]" "[]" "example_platform 25200000" Undefined Undefined
        0 "[]"]
    by blast
  show ?thesis using h sw dp tz d1 d2 by simp
qed

text \<open>
  C2 as stated fails in two places. A date-only string is midnight UTC and the day is
  read in local time: five hours behind UTC the example is the fourth of January. The
  year is not padded: the year 999 is rendered with three digits.
\<close>

theorem date_filter_counterexample:
  "date (example_platform (- 18000000)) (Str (lit ''2024-01-05'')) (Str (lit ''dd/MM/yyyy''))
     = Inr (lit ''04/01/2024'')
   \<and> date (example_platform 0) (Str (lit ''0999-01-01'')) (Str (lit ''dd/MM/yyyy''))
     = Inr (lit ''01/01/999'')"
proof -
  have l1: "local_date (example_platform (- 18000000)) 1704412800000 = (2024, 1, 4)"
    by (simp add: local_date_def example_platform_def civil_from_days_examples)
  have l2: "local_date (example_platform 0) (- 30641760000000) = (999, 1, 1)"
    by (simp add: local_date_def example_platform_def civil_from_days_examples)
  have "date (example_platform (- 18000000)) (Str (lit ''2024-01-05'')) (Str (lit ''dd/MM/yyyy''))
     = Inr (lit ''04/01/2024'')"
    unfolding date_rendered [OF Date_parse_examples(1)] getDate_def getMonth_def getFullYear_def l1
    by (simp add: padded_2024_01_05 padded_examples render_examples)
  moreover have "date (example_platform 0) (Str (lit ''0999-01-01'')) (Str (lit ''dd/MM/yyyy''))
     = Inr (lit ''01/01/999'')"
    unfolding date_rendered [OF Date_parse_examples(2)] getDate_def getMonth_def getFullYear_def l2
    by (simp add: padded_2024_01_05 padded_examples render_examples)
  ultimately show ?thesis by simp
qed

end
